theory Spec2Isabelle
  imports Complex_Main "HOL-Library.AList" "HOL-Library.Multiset" "HOL-Library.Option_ord"
begin

section \<open>JavaScript values\<close>

text \<open>
  The values that flow through \<^verbatim>\<open>server.js\<close>: request bodies (parsed or not),
  the arguments of the Cloudinary callback, thrown errors and the values handed to the
  models. An object is an association list in insertion order. Numbers are only ever
  tested for truthiness and passed on, so a finite number is a rational and \<open>NaN\<close> is
  kept apart because it is falsy.
\<close>

datatype jsval =
    JUndefined
  | JNull
  | JBool bool
  | JNum rat
  | JNaN
  | JStr string
  | JArr "jsval list"
  | JObj "(string \<times> jsval) list"

type_synonym obj = "(string \<times> jsval) list"

text \<open>Truthiness, as used by \<^verbatim>\<open>!x\<close>, \<^verbatim>\<open>x && y\<close> and \<^verbatim>\<open>x ? y : z\<close>.\<close>

fun truthy :: "jsval \<Rightarrow> bool" where
  "truthy JUndefined = False"
| "truthy JNull = False"
| "truthy (JBool b) = b"
| "truthy (JNum n) = (n \<noteq> 0)"
| "truthy JNaN = False"
| "truthy (JStr s) = (s \<noteq> [])"
| "truthy (JArr xs) = True"
| "truthy (JObj kvs) = True"

text \<open>Reading \<^verbatim>\<open>o.k\<close> on a plain object: \<^verbatim>\<open>undefined\<close> when the key is absent.\<close>

definition getf :: "obj \<Rightarrow> string \<Rightarrow> jsval" where
  "getf ob k = (case map_of ob k of None \<Rightarrow> JUndefined | Some v \<Rightarrow> v)"

text \<open>
  Reading a property of a non-nullish value. Only \<^verbatim>\<open>secure_url\<close> and
  \<^verbatim>\<open>message\<close> are read this way; primitives and arrays have neither.
\<close>

fun jsprop :: "jsval \<Rightarrow> string \<Rightarrow> jsval" where
  "jsprop (JObj kvs) k = getf kvs k"
| "jsprop v k = JUndefined"

definition type_error :: "string \<Rightarrow> jsval" where
  "type_error m = JObj [(''name'', JStr ''TypeError''), (''message'', JStr m)]"

text \<open>\<^verbatim>\<open>v.k\<close> on an arbitrary value: a TypeError is thrown on \<^verbatim>\<open>undefined\<close> and \<^verbatim>\<open>null\<close>.\<close>

definition get_prop :: "jsval \<Rightarrow> string \<Rightarrow> jsval + jsval" where
  "get_prop v k =
     (if v = JUndefined \<or> v = JNull
      then Inl (type_error (''Cannot read properties of undefined or null (reading '' @ k @ '')''))
      else Inr (jsprop v k))"

text \<open>
  Object spread \<^verbatim>\<open>{ ...a, ...b }\<close>: the entries of \<open>b\<close> are assigned onto \<open>a\<close> one
  after the other; an existing key keeps its position and takes the new value.
\<close>

fun assign :: "obj \<Rightarrow> obj \<Rightarrow> obj" where
  "assign a [] = a"
| "assign a ((k, v) # b) = assign (AList.update k v a) b"

text \<open>
  \<^verbatim>\<open>...(u && { k: u })\<close>: when \<open>u\<close> is falsy the operand of the spread is \<open>u\<close> itself
  (\<^verbatim>\<open>undefined\<close>, \<^verbatim>\<open>null\<close>, \<^verbatim>\<open>""\<close>, ...), which contributes no property.
\<close>

definition and_field :: "string \<Rightarrow> jsval \<Rightarrow> obj" where
  "and_field k u = (if truthy u then [(k, u)] else [])"

text \<open>
  The own enumerable properties that \<^verbatim>\<open>...v\<close> copies: those of an object; the
  elements of an array and the characters of a string under their decimal indices;
  nothing for any other value, \<^verbatim>\<open>undefined\<close> and \<^verbatim>\<open>null\<close> included.
\<close>

function dec :: "nat \<Rightarrow> string" where
  "dec n = (if n < 10 then [''0123456789'' ! n] else dec (n div 10) @ [''0123456789'' ! (n mod 10)])"
  by pat_completeness auto
termination
  by (relation "measure id") auto

declare dec.simps [simp del]

definition index_keys :: "nat \<Rightarrow> string list" where
  "index_keys n = map dec [0..<n]"

fun spread :: "jsval \<Rightarrow> obj" where
  "spread (JObj kvs) = kvs"
| "spread (JArr xs) = zip (index_keys (length xs)) xs"
| "spread (JStr cs) = zip (index_keys (length cs)) (map (\<lambda>c. JStr [c]) cs)"
| "spread v = []"

subsection \<open>\<^verbatim>\<open>String.prototype.split(",")\<close>\<close>

fun split_on :: "char \<Rightarrow> string \<Rightarrow> string list" where
  "split_on c [] = [[]]"
| "split_on c (x # xs) =
     (if x = c then [] # split_on c xs
      else (case split_on c xs of [] \<Rightarrow> [[x]] | p # ps \<Rightarrow> (x # p) # ps))"

definition split_comma :: "string \<Rightarrow> string list" where
  "split_comma s = split_on (CHR '','') s"

fun join :: "string \<Rightarrow> string list \<Rightarrow> string" where
  "join sep [] = []"
| "join sep [p] = p"
| "join sep (p # q # ps) = p @ sep @ join sep (q # ps)"

text \<open>
  \<^verbatim>\<open>req.body.tech?.split(",")\<close>: the optional chain stops at \<^verbatim>\<open>undefined\<close> and
  \<^verbatim>\<open>null\<close>; a string is split; any other value has no \<^verbatim>\<open>split\<close> method and the call
  throws a TypeError.
\<close>

fun tech_split :: "jsval \<Rightarrow> jsval + jsval" where
  "tech_split JUndefined = Inr JUndefined"
| "tech_split JNull = Inr JUndefined"
| "tech_split (JStr t) = Inr (JArr (map JStr (split_comma t)))"
| "tech_split v = Inl (type_error ''req.body.tech?.split is not a function'')"

text \<open>
  The trimming that the specification attributes to the tech transformation; the source
  contains no such step. ASCII white space only.
\<close>

definition is_space :: "char \<Rightarrow> bool" where
  "is_space c = (c \<in> set [CHR '' '', CHR 0x09, CHR 0x0A, CHR 0x0B, CHR 0x0C, CHR 0x0D])"

definition spec_trim :: "string \<Rightarrow> string" where
  "spec_trim s = rev (dropWhile is_space (rev (dropWhile is_space s)))"

definition spec_tech :: "string \<Rightarrow> string list" where
  "spec_tech s = map spec_trim (split_comma s)"

section \<open>Requests\<close>

type_synonym buffer = "nat list"

text \<open>
  \<^verbatim>\<open>req.body\<close> is whatever the body parsers left: an object, an array, or
  \<^verbatim>\<open>undefined\<close> when nothing was parsed. \<^verbatim>\<open>req.file\<close> is the buffer of the attached
  file, when there is one.
\<close>

record request =
  req_body :: jsval
  req_file :: "buffer option"

section \<open>The record store\<close>

datatype kind = KProfile | KProject | KExperience | KCertification | KContact | KTestimonial

subsection \<open>The schemas\<close>

datatype ftype = TString | TNumber | TStringArray | TDateDefaultNow

text \<open>
  The paths of the six \<^verbatim>\<open>mongoose.Schema\<close> declarations, and which of them were given
  \<^verbatim>\<open>{ timestamps: true }\<close>. \<open>TDateDefaultNow\<close> is
  \<^verbatim>\<open>{ type: Date, default: Date.now }\<close>.
\<close>

definition schema :: "kind \<Rightarrow> (string \<times> ftype) list" where
  "schema k =
     (case k of
        KProfile \<Rightarrow>
          [(''name'', TString), (''title'', TString), (''bio'', TString), (''photo'', TString)]
      | KProject \<Rightarrow>
          [(''title'', TString), (''description'', TString), (''tech'', TStringArray),
           (''image'', TString), (''github'', TString), (''live'', TString)]
      | KExperience \<Rightarrow>
          [(''company'', TString), (''role'', TString), (''startDate'', TString),
           (''endDate'', TString), (''description'', TString)]
      | KCertification \<Rightarrow>
          [(''name'', TString), (''issuer'', TString), (''year'', TString), (''image'', TString)]
      | KContact \<Rightarrow>
          [(''name'', TString), (''email'', TString), (''phone'', TString),
           (''message'', TString), (''createdAt'', TDateDefaultNow)]
      | KTestimonial \<Rightarrow>
          [(''name'', TString), (''role'', TString), (''company'', TString),
           (''message'', TString), (''rating'', TNumber)])"

definition timestamps :: "kind \<Rightarrow> bool" where
  "timestamps k = (k = KProject \<or> k = KExperience \<or> k = KCertification \<or> k = KTestimonial)"

subsection \<open>Documents\<close>

text \<open>
  A stored document: its identifier, its \<^verbatim>\<open>createdAt\<close> (\<open>None\<close> when the document
  has none, or \<^verbatim>\<open>null\<close>) and its fields.
\<close>

record srec =
  rid :: nat
  created :: "int option"
  attrs :: obj

datatype payload =
    Doc "srec option"
  | Docs "srec list"
  | Json jsval

record store =
  colls :: "kind \<Rightarrow> srec list"
  next_id :: nat

definition empty_store :: store where
  "empty_store = \<lparr>colls = (\<lambda>k. []), next_id = 0\<rparr>"

text \<open>
  The environment of one request: the arguments \<open>(err, result)\<close> with which the
  Cloudinary SDK calls back for a buffer and a folder; for the successive model calls of
  the request, whether the call throws and what; the clock; and the date that the
  \<^verbatim>\<open>Date\<close> constructor reads from a value that is neither a number, a boolean,
  \<^verbatim>\<open>null\<close> nor the empty string (\<open>None\<close> when it reads no date; date strings are not
  interpreted here).
\<close>

record env =
  cloud :: "buffer \<Rightarrow> string \<Rightarrow> jsval \<times> jsval"
  faults :: "jsval option list"
  now :: int
  read_date :: "jsval \<Rightarrow> int option"

definition fault_at :: "env \<Rightarrow> nat \<Rightarrow> jsval option" where
  "fault_at e i = (if i < length (faults e) then faults e ! i else None)"

subsection \<open>The model operations\<close>

text \<open>
  Modelled from the spec: the Mongoose models (\<^verbatim>\<open>create\<close>, \<^verbatim>\<open>findOne\<close>,
  \<^verbatim>\<open>find\<close>, \<^verbatim>\<open>find().sort({ createdAt: -1 })\<close>, \<^verbatim>\<open>findByIdAndUpdate\<close>,
  \<^verbatim>\<open>findByIdAndDelete\<close>) are library code outside the repository. They follow the
  Record Store contract of the specification: a collection keyed by an opaque identifier
  assigned at creation; \<open>updateById\<close> overwrites the supplied fields only and yields
  nothing for an unknown identifier; the sorted listing is by \<^verbatim>\<open>createdAt\<close>, newest
  first, documents without one last (the order among equal times is left open by the
  contract; the model keeps the insertion order there, and no statement below depends on
  it). Of the schemas, \<open>create\<close> applies Mongoose's reading of the declarations above:
  an array path that is absent or \<^verbatim>\<open>undefined\<close> takes the default \<^verbatim>\<open>[]\<close>; a key
  bound to \<^verbatim>\<open>undefined\<close> is not stored; \<^verbatim>\<open>createdAt\<close> is the caller's value when
  the body carries one and the clock's otherwise (the specification's "defaulted at
  insert"). The casting of the other paths, the dropping of keys that are not paths of
  the schema, \<^verbatim>\<open>updatedAt\<close> and a caller-supplied \<^verbatim>\<open>_id\<close> are not modelled.
\<close>

definition array_paths :: "kind \<Rightarrow> string list" where
  "array_paths k = map fst (filter (\<lambda>(p, t). t = TStringArray) (schema k))"

definition with_defaults :: "kind \<Rightarrow> obj \<Rightarrow> obj" where
  "with_defaults k flds =
     foldl (\<lambda>acc p. if getf acc p = JUndefined then AList.update p (JArr []) acc else acc)
       flds (array_paths k)"

definition persist :: "kind \<Rightarrow> obj \<Rightarrow> obj" where
  "persist k flds = filter (\<lambda>(p, v). v \<noteq> JUndefined) (with_defaults k flds)"

definition validation_error :: "string \<Rightarrow> jsval" where
  "validation_error m = JObj [(''name'', JStr ''ValidationError''), (''message'', JStr m)]"

text \<open>
  Casting to \<^verbatim>\<open>Date\<close>: \<^verbatim>\<open>null\<close> and the empty string give \<^verbatim>\<open>null\<close>; a number is
  a count of milliseconds, truncated, within the range of \<^verbatim>\<open>Date\<close>; a boolean and
  \<^verbatim>\<open>NaN\<close> are refused; anything else is read by the \<^verbatim>\<open>Date\<close> constructor.
\<close>

definition trunc :: "rat \<Rightarrow> int" where
  "trunc n = (if 0 \<le> n then \<lfloor>n\<rfloor> else \<lceil>n\<rceil>)"

fun cast_date :: "env \<Rightarrow> jsval \<Rightarrow> jsval + int option" where
  "cast_date e JUndefined = Inr None"
| "cast_date e JNull = Inr None"
| "cast_date e (JBool b) = Inl (validation_error ''Cast to date failed'')"
| "cast_date e JNaN = Inl (validation_error ''Cast to date failed'')"
| "cast_date e (JNum n) =
     (if - 8640000000000000 \<le> n \<and> n \<le> 8640000000000000 then Inr (Some (trunc n))
      else Inl (validation_error ''Cast to date failed''))"
| "cast_date e v =
     (if v = JStr [] then Inr None
      else (case read_date e v of
              Some t \<Rightarrow> Inr (Some t)
            | None \<Rightarrow> Inl (validation_error ''Cast to date failed'')))"

text \<open>
  The \<^verbatim>\<open>createdAt\<close> of a new document. The Profile schema has no such path. The
  Contact schema declares it with the default \<^verbatim>\<open>Date.now\<close>, which applies when the
  value is \<^verbatim>\<open>undefined\<close>. Under \<^verbatim>\<open>{ timestamps: true }\<close> the clock's reading is set
  when the new document has no date of its own.
\<close>

definition created_at :: "env \<Rightarrow> kind \<Rightarrow> obj \<Rightarrow> jsval + int option" where
  "created_at e k flds =
     (if k = KProfile then Inr None
      else if getf flds ''createdAt'' = JUndefined then Inr (Some (now e))
      else (case cast_date e (getf flds ''createdAt'') of
              Inl x \<Rightarrow> Inl x
            | Inr None \<Rightarrow> (if timestamps k then Inr (Some (now e)) else Inr None)
            | Inr (Some t) \<Rightarrow> Inr (Some t)))"

text \<open>
  The fields of a value handed over as a document: none for \<^verbatim>\<open>undefined\<close> and
  \<^verbatim>\<open>null\<close>; a primitive is refused.
\<close>

definition object_parameter_error :: jsval where
  "object_parameter_error =
     JObj [(''name'', JStr ''ObjectParameterError''),
           (''message'', JStr ''Parameter obj to Document() must be an object'')]"

fun doc_fields :: "jsval \<Rightarrow> jsval + obj" where
  "doc_fields JUndefined = Inr []"
| "doc_fields JNull = Inr []"
| "doc_fields (JObj kvs) = Inr kvs"
| "doc_fields (JArr xs) = Inr (spread (JArr xs))"
| "doc_fields v = Inl object_parameter_error"

definition st_create_one :: "env \<Rightarrow> kind \<Rightarrow> jsval \<Rightarrow> store \<Rightarrow> jsval + srec \<times> store" where
  "st_create_one e k v s =
     (case doc_fields v of
        Inl x \<Rightarrow> Inl x
      | Inr flds \<Rightarrow>
          (case created_at e k flds of
             Inl x \<Rightarrow> Inl x
           | Inr c \<Rightarrow>
               Inr (\<lparr>rid = next_id s, created = c, attrs = persist k flds\<rparr>,
                    s\<lparr>colls := (colls s)(k := colls s k @
                          [\<lparr>rid = next_id s, created = c, attrs = persist k flds\<rparr>]),
                      next_id := Suc (next_id s)\<rparr>)))"

fun st_create_each :: "env \<Rightarrow> kind \<Rightarrow> jsval list \<Rightarrow> store \<Rightarrow> jsval + srec list \<times> store" where
  "st_create_each e k [] s = Inr ([], s)"
| "st_create_each e k (v # vs) s =
     (case st_create_one e k v s of
        Inl x \<Rightarrow> Inl x
      | Inr (d, s1) \<Rightarrow>
          (case st_create_each e k vs s1 of
             Inl x \<Rightarrow> Inl x
           | Inr (ds, s2) \<Rightarrow> Inr (d # ds, s2)))"

text \<open>
  \<^verbatim>\<open>Model.create(v)\<close>: one document, or, for an array, one document per element, in
  order. When a document is refused the call throws and the store is as it was.
\<close>

fun st_create :: "env \<Rightarrow> kind \<Rightarrow> jsval \<Rightarrow> store \<Rightarrow> jsval + payload \<times> store" where
  "st_create e k (JArr vs) s =
     (case st_create_each e k vs s of
        Inl x \<Rightarrow> Inl x
      | Inr (ds, s') \<Rightarrow> Inr (Docs ds, s'))"
| "st_create e k v s =
     (case st_create_one e k v s of
        Inl x \<Rightarrow> Inl x
      | Inr (d, s') \<Rightarrow> Inr (Doc (Some d), s'))"

definition st_findOne :: "kind \<Rightarrow> store \<Rightarrow> srec option" where
  "st_findOne k s = (case colls s k of [] \<Rightarrow> None | d # ds \<Rightarrow> Some d)"

definition st_find :: "kind \<Rightarrow> store \<Rightarrow> srec list" where
  "st_find k s = colls s k"

text \<open>Sorting by \<^verbatim>\<open>createdAt\<close> descending: each document goes before the first older one.\<close>

fun place :: "srec \<Rightarrow> srec list \<Rightarrow> srec list" where
  "place d [] = [d]"
| "place d (x # xs) = (if created x < created d then d # x # xs else x # place d xs)"

definition newest_first :: "srec list \<Rightarrow> srec list" where
  "newest_first ds = foldl (\<lambda>acc d. place d acc) [] ds"

definition st_find_newest_first :: "kind \<Rightarrow> store \<Rightarrow> srec list" where
  "st_find_newest_first k s = newest_first (colls s k)"

text \<open>
  The fields of an update: those of an object, none for \<^verbatim>\<open>undefined\<close> and
  \<^verbatim>\<open>null\<close>; anything else is refused.
\<close>

fun update_fields :: "jsval \<Rightarrow> jsval + obj" where
  "update_fields JUndefined = Inr []"
| "update_fields JNull = Inr []"
| "update_fields (JObj kvs) = Inr kvs"
| "update_fields v = Inl (validation_error ''Invalid update'')"

definition st_update :: "kind \<Rightarrow> nat \<Rightarrow> jsval \<Rightarrow> store \<Rightarrow> jsval + srec option \<times> store" where
  "st_update k i v s =
     (case update_fields v of
        Inl x \<Rightarrow> Inl x
      | Inr flds \<Rightarrow>
          (case find (\<lambda>d. rid d = i) (colls s k) of
             None \<Rightarrow> Inr (None, s)
           | Some d \<Rightarrow>
               Inr (Some (d\<lparr>attrs := assign (attrs d) flds\<rparr>),
                    s\<lparr>colls := (colls s)(k :=
                         map (\<lambda>x. if rid x = i then d\<lparr>attrs := assign (attrs d) flds\<rparr> else x)
                           (colls s k))\<rparr>)))"

definition st_delete :: "kind \<Rightarrow> nat \<Rightarrow> store \<Rightarrow> store" where
  "st_delete k i s = s\<lparr>colls := (colls s)(k := filter (\<lambda>d. rid d \<noteq> i) (colls s k))\<rparr>"

section \<open>Responses and the steps of a handler\<close>

record response =
  status :: nat
  sent :: payload

text \<open>
  What an \<^verbatim>\<open>async\<close> handler amounts to: either it has sent a response, or its promise
  is rejected with a thrown value and the handler itself has sent nothing.
\<close>

datatype outcome = Responded response | Rejected jsval

datatype call =
    Create kind jsval
  | FindOne kind
  | Find kind
  | FindNewestFirst kind
  | FindByIdAndUpdate kind nat jsval
  | FindByIdAndDelete kind nat

text \<open>The result of a step: a thrown value or a result, the store and the model calls made.\<close>

type_synonym 'a eff = "(jsval + 'a) \<times> store \<times> call list"

definition await :: "'a eff \<Rightarrow> ('a \<Rightarrow> store \<Rightarrow> 'b eff) \<Rightarrow> 'b eff" where
  "await m f =
     (case m of
        (Inl e, s1, c1) \<Rightarrow> (Inl e, s1, c1)
      | (Inr x, s1, c1) \<Rightarrow> (case f x s1 of (r, s2, c2) \<Rightarrow> (r, s2, c1 @ c2)))"

text \<open>A model call that throws leaves the store as it was.\<close>

definition Model_create :: "env \<Rightarrow> nat \<Rightarrow> kind \<Rightarrow> jsval \<Rightarrow> store \<Rightarrow> payload eff" where
  "Model_create e i k v s =
     (case fault_at e i of
        Some x \<Rightarrow> (Inl x, s, [Create k v])
      | None \<Rightarrow>
          (case st_create e k v s of
             Inl x \<Rightarrow> (Inl x, s, [Create k v])
           | Inr (p, s') \<Rightarrow> (Inr p, s', [Create k v])))"

definition Model_findOne :: "env \<Rightarrow> nat \<Rightarrow> kind \<Rightarrow> store \<Rightarrow> (srec option) eff" where
  "Model_findOne e i k s =
     (case fault_at e i of
        Some x \<Rightarrow> (Inl x, s, [FindOne k])
      | None \<Rightarrow> (Inr (st_findOne k s), s, [FindOne k]))"

definition Model_find :: "env \<Rightarrow> nat \<Rightarrow> kind \<Rightarrow> store \<Rightarrow> (srec list) eff" where
  "Model_find e i k s =
     (case fault_at e i of
        Some x \<Rightarrow> (Inl x, s, [Find k])
      | None \<Rightarrow> (Inr (st_find k s), s, [Find k]))"

definition Model_find_sort :: "env \<Rightarrow> nat \<Rightarrow> kind \<Rightarrow> store \<Rightarrow> (srec list) eff" where
  "Model_find_sort e i k s =
     (case fault_at e i of
        Some x \<Rightarrow> (Inl x, s, [FindNewestFirst k])
      | None \<Rightarrow> (Inr (st_find_newest_first k s), s, [FindNewestFirst k]))"

definition Model_findByIdAndUpdate ::
  "env \<Rightarrow> nat \<Rightarrow> kind \<Rightarrow> nat \<Rightarrow> jsval \<Rightarrow> store \<Rightarrow> (srec option) eff" where
  "Model_findByIdAndUpdate e i k n v s =
     (case fault_at e i of
        Some x \<Rightarrow> (Inl x, s, [FindByIdAndUpdate k n v])
      | None \<Rightarrow>
          (case st_update k n v s of
             Inl x \<Rightarrow> (Inl x, s, [FindByIdAndUpdate k n v])
           | Inr (r, s') \<Rightarrow> (Inr r, s', [FindByIdAndUpdate k n v])))"

definition Model_findByIdAndDelete :: "env \<Rightarrow> nat \<Rightarrow> kind \<Rightarrow> nat \<Rightarrow> store \<Rightarrow> unit eff" where
  "Model_findByIdAndDelete e i k n s =
     (case fault_at e i of
        Some x \<Rightarrow> (Inl x, s, [FindByIdAndDelete k n])
      | None \<Rightarrow> (Inr (), st_delete k n s, [FindByIdAndDelete k n]))"

section \<open>Upload\<close>

text \<open>
  \<^verbatim>\<open>uploadToCloudinary\<close>: the promise is rejected with \<open>err\<close> when the callback's
  first argument is truthy and resolved with \<open>result\<close> otherwise.
\<close>

definition uploadToCloudinary :: "env \<Rightarrow> buffer \<Rightarrow> string \<Rightarrow> jsval + jsval" where
  "uploadToCloudinary e buf folder =
     (case cloud e buf folder of (err, result) \<Rightarrow> if truthy err then Inl err else Inr result)"

text \<open>
  The opening of the four upload handlers:
  \<^verbatim>\<open>let image; if (req.file) { const r = await uploadToCloudinary(...); image = r.secure_url; }\<close>
\<close>

definition upload_step :: "env \<Rightarrow> buffer option \<Rightarrow> string \<Rightarrow> jsval + jsval" where
  "upload_step e f folder =
     (case f of
        None \<Rightarrow> Inr JUndefined
      | Some buf \<Rightarrow>
          (case uploadToCloudinary e buf folder of
             Inl x \<Rightarrow> Inl x
           | Inr r \<Rightarrow> get_prop r ''secure_url''))"

section \<open>Handlers\<close>

definition ok :: "payload \<Rightarrow> response" where
  "ok p = \<lparr>status = 200, sent = p\<rparr>"

definition error_body :: "jsval \<Rightarrow> payload" where
  "error_body m = Json (JObj [(''error'', m)])"

text \<open>
  \<^verbatim>\<open>try { ... } catch (e) { res.status(500).json({ error: e.message }) }\<close>. Reading
  \<^verbatim>\<open>e.message\<close> throws in turn when \<open>e\<close> is \<^verbatim>\<open>undefined\<close> or \<^verbatim>\<open>null\<close>.
\<close>

definition try_catch :: "response eff \<Rightarrow> outcome \<times> store \<times> call list" where
  "try_catch m =
     (case m of
        (Inr r, s, c) \<Rightarrow> (Responded r, s, c)
      | (Inl x, s, c) \<Rightarrow>
          (case get_prop x ''message'' of
             Inl te \<Rightarrow> (Rejected te, s, c)
           | Inr msg \<Rightarrow> (Responded \<lparr>status = 500, sent = error_body msg\<rparr>, s, c)))"

text \<open>A handler without \<^verbatim>\<open>try\<close>: a thrown value rejects the handler's promise.\<close>

definition no_catch :: "response eff \<Rightarrow> outcome \<times> store \<times> call list" where
  "no_catch m =
     (case m of
        (Inr r, s, c) \<Rightarrow> (Responded r, s, c)
      | (Inl x, s, c) \<Rightarrow> (Rejected x, s, c))"

definition throws :: "jsval + 'a \<Rightarrow> store \<Rightarrow> 'a eff" where
  "throws r s = (r, s, [])"

subsection \<open>Profile\<close>

text \<open>\<^verbatim>\<open>{ ...req.body, ...(photo && { photo }) }\<close>\<close>

definition profile_data :: "jsval \<Rightarrow> jsval \<Rightarrow> obj" where
  "profile_data b photo = assign (spread b) (and_field ''photo'' photo)"

definition post_profile_try :: "env \<Rightarrow> request \<Rightarrow> store \<Rightarrow> response eff" where
  "post_profile_try e req s =
     await (throws (upload_step e (req_file req) ''portfolio/profile'') s) (\<lambda>photo s0.
     await (Model_findOne e 0 KProfile s0) (\<lambda>existing s1.
       (let data = profile_data (req_body req) photo in
        (case existing of
           Some p \<Rightarrow>
             await (Model_findByIdAndUpdate e 1 KProfile (rid p) (JObj data) s1) (\<lambda>result s2.
               (Inr (ok (Doc result)), s2, []))
         | None \<Rightarrow>
             await (Model_create e 1 KProfile (JObj data) s1) (\<lambda>result s2.
               (Inr (ok result), s2, []))))))"

definition post_profile :: "env \<Rightarrow> request \<Rightarrow> store \<Rightarrow> outcome \<times> store \<times> call list" where
  "post_profile e req s = try_catch (post_profile_try e req s)"

definition get_profile :: "env \<Rightarrow> request \<Rightarrow> store \<Rightarrow> outcome \<times> store \<times> call list" where
  "get_profile e req s =
     no_catch (await (Model_findOne e 0 KProfile s) (\<lambda>p s1. (Inr (ok (Doc p)), s1, [])))"

subsection \<open>Projects\<close>

text \<open>\<^verbatim>\<open>{ ...req.body, tech: req.body.tech?.split(","), image }\<close>\<close>

definition project_create_data :: "jsval \<Rightarrow> jsval \<Rightarrow> jsval \<Rightarrow> obj" where
  "project_create_data b tech img =
     AList.update ''image'' img (AList.update ''tech'' tech (spread b))"

text \<open>\<^verbatim>\<open>{ ...req.body, tech: req.body.tech?.split(","), ...(image && { image }) }\<close>\<close>

definition project_update_data :: "jsval \<Rightarrow> jsval \<Rightarrow> jsval \<Rightarrow> obj" where
  "project_update_data b tech img =
     assign (AList.update ''tech'' tech (spread b)) (and_field ''image'' img)"

text \<open>
  \<^verbatim>\<open>req.body.tech?.split(",")\<close>: reading \<^verbatim>\<open>tech\<close> throws when there is no parsed
  body.
\<close>

definition req_tech :: "jsval \<Rightarrow> jsval + jsval" where
  "req_tech b = (case get_prop b ''tech'' of Inl x \<Rightarrow> Inl x | Inr v \<Rightarrow> tech_split v)"

definition post_projects_try :: "env \<Rightarrow> request \<Rightarrow> store \<Rightarrow> response eff" where
  "post_projects_try e req s =
     await (throws (upload_step e (req_file req) ''portfolio/projects'') s) (\<lambda>img s0.
     await (throws (req_tech (req_body req)) s0) (\<lambda>tech s1.
     await (Model_create e 0 KProject (JObj (project_create_data (req_body req) tech img)) s1)
       (\<lambda>project s2. (Inr (ok project), s2, []))))"

definition post_projects :: "env \<Rightarrow> request \<Rightarrow> store \<Rightarrow> outcome \<times> store \<times> call list" where
  "post_projects e req s = try_catch (post_projects_try e req s)"

definition get_projects :: "env \<Rightarrow> request \<Rightarrow> store \<Rightarrow> outcome \<times> store \<times> call list" where
  "get_projects e req s =
     no_catch (await (Model_find e 0 KProject s) (\<lambda>ds s1. (Inr (ok (Docs ds)), s1, [])))"

definition put_project_try :: "env \<Rightarrow> nat \<Rightarrow> request \<Rightarrow> store \<Rightarrow> response eff" where
  "put_project_try e i req s =
     await (throws (upload_step e (req_file req) ''portfolio/projects'') s) (\<lambda>img s0.
     await (throws (req_tech (req_body req)) s0) (\<lambda>tech s1.
     await (Model_findByIdAndUpdate e 0 KProject i
              (JObj (project_update_data (req_body req) tech img)) s1)
       (\<lambda>r s2. (Inr (ok (Doc r)), s2, []))))"

definition put_project :: "env \<Rightarrow> nat \<Rightarrow> request \<Rightarrow> store \<Rightarrow> outcome \<times> store \<times> call list" where
  "put_project e i req s = try_catch (put_project_try e i req s)"

definition message_body :: "string \<Rightarrow> payload" where
  "message_body m = Json (JObj [(''message'', JStr m)])"

definition delete_project :: "env \<Rightarrow> nat \<Rightarrow> request \<Rightarrow> store \<Rightarrow> outcome \<times> store \<times> call list" where
  "delete_project e i req s =
     no_catch (await (Model_findByIdAndDelete e 0 KProject i s)
       (\<lambda>u s1. (Inr (ok (message_body ''Project deleted'')), s1, [])))"

subsection \<open>Experience\<close>

definition post_experience :: "env \<Rightarrow> request \<Rightarrow> store \<Rightarrow> outcome \<times> store \<times> call list" where
  "post_experience e req s =
     no_catch (await (Model_create e 0 KExperience (req_body req) s)
       (\<lambda>d s1. (Inr (ok d), s1, [])))"

definition get_experience :: "env \<Rightarrow> request \<Rightarrow> store \<Rightarrow> outcome \<times> store \<times> call list" where
  "get_experience e req s =
     no_catch (await (Model_find e 0 KExperience s) (\<lambda>ds s1. (Inr (ok (Docs ds)), s1, [])))"

definition put_experience :: "env \<Rightarrow> nat \<Rightarrow> request \<Rightarrow> store \<Rightarrow> outcome \<times> store \<times> call list" where
  "put_experience e i req s =
     no_catch (await (Model_findByIdAndUpdate e 0 KExperience i (req_body req) s)
       (\<lambda>r s1. (Inr (ok (Doc r)), s1, [])))"

definition delete_experience :: "env \<Rightarrow> nat \<Rightarrow> request \<Rightarrow> store \<Rightarrow> outcome \<times> store \<times> call list" where
  "delete_experience e i req s =
     no_catch (await (Model_findByIdAndDelete e 0 KExperience i s)
       (\<lambda>u s1. (Inr (ok (message_body ''Experience deleted'')), s1, [])))"

subsection \<open>Certifications\<close>

text \<open>\<^verbatim>\<open>{ ...req.body, image }\<close>\<close>

definition certification_data :: "jsval \<Rightarrow> jsval \<Rightarrow> obj" where
  "certification_data b img = AList.update ''image'' img (spread b)"

definition post_certifications_try :: "env \<Rightarrow> request \<Rightarrow> store \<Rightarrow> response eff" where
  "post_certifications_try e req s =
     await (throws (upload_step e (req_file req) ''portfolio/certifications'') s) (\<lambda>img s0.
     await (Model_create e 0 KCertification (JObj (certification_data (req_body req) img)) s0)
       (\<lambda>d s1. (Inr (ok d), s1, [])))"

definition post_certifications :: "env \<Rightarrow> request \<Rightarrow> store \<Rightarrow> outcome \<times> store \<times> call list" where
  "post_certifications e req s = try_catch (post_certifications_try e req s)"

definition get_certifications :: "env \<Rightarrow> request \<Rightarrow> store \<Rightarrow> outcome \<times> store \<times> call list" where
  "get_certifications e req s =
     no_catch (await (Model_find e 0 KCertification s) (\<lambda>ds s1. (Inr (ok (Docs ds)), s1, [])))"

definition delete_certification :: "env \<Rightarrow> nat \<Rightarrow> request \<Rightarrow> store \<Rightarrow> outcome \<times> store \<times> call list" where
  "delete_certification e i req s =
     no_catch (await (Model_findByIdAndDelete e 0 KCertification i s)
       (\<lambda>u s1. (Inr (ok (message_body ''Deleted'')), s1, [])))"

subsection \<open>Contact\<close>

definition falsy :: "jsval \<Rightarrow> bool" where
  "falsy v = (\<not> truthy v)"

text \<open>
  \<^verbatim>\<open>const { name, email, message } = req.body;\<close> throws a TypeError when
  \<^verbatim>\<open>req.body\<close> is \<^verbatim>\<open>undefined\<close> or \<^verbatim>\<open>null\<close>; the handler has no \<^verbatim>\<open>try\<close>.
\<close>

definition destructure :: "jsval \<Rightarrow> jsval + jsval \<times> jsval \<times> jsval" where
  "destructure b =
     (if b = JUndefined \<or> b = JNull
      then Inl (type_error ''Cannot destructure property name of req.body'')
      else Inr (jsprop b ''name'', jsprop b ''email'', jsprop b ''message''))"

text \<open>
  \<^verbatim>\<open>if (!name || !email || !message) return res.status(400).json({ error: "All fields required" });\<close>
\<close>

definition post_contact :: "env \<Rightarrow> request \<Rightarrow> store \<Rightarrow> outcome \<times> store \<times> call list" where
  "post_contact e req s =
     (case destructure (req_body req) of
        Inl x \<Rightarrow> (Rejected x, s, [])
      | Inr (name, email, message) \<Rightarrow>
          if falsy name \<or> falsy email \<or> falsy message
          then (Responded \<lparr>status = 400, sent = error_body (JStr ''All fields required'')\<rparr>, s, [])
          else no_catch (await (Model_create e 0 KContact (req_body req) s)
                 (\<lambda>d s1. (Inr (ok (Json (JObj [(''success'', JBool True)]))), s1, []))))"

definition get_contact :: "env \<Rightarrow> request \<Rightarrow> store \<Rightarrow> outcome \<times> store \<times> call list" where
  "get_contact e req s =
     no_catch (await (Model_find_sort e 0 KContact s) (\<lambda>ds s1. (Inr (ok (Docs ds)), s1, [])))"

subsection \<open>Testimonials\<close>

definition post_testimonials :: "env \<Rightarrow> request \<Rightarrow> store \<Rightarrow> outcome \<times> store \<times> call list" where
  "post_testimonials e req s =
     no_catch (await (Model_create e 0 KTestimonial (req_body req) s)
       (\<lambda>d s1. (Inr (ok d), s1, [])))"

definition put_testimonial :: "env \<Rightarrow> nat \<Rightarrow> request \<Rightarrow> store \<Rightarrow> outcome \<times> store \<times> call list" where
  "put_testimonial e i req s =
     no_catch (await (Model_findByIdAndUpdate e 0 KTestimonial i (req_body req) s)
       (\<lambda>r s1. (Inr (ok (Doc r)), s1, [])))"

definition delete_testimonial :: "env \<Rightarrow> nat \<Rightarrow> request \<Rightarrow> store \<Rightarrow> outcome \<times> store \<times> call list" where
  "delete_testimonial e i req s =
     no_catch (await (Model_findByIdAndDelete e 0 KTestimonial i s)
       (\<lambda>u s1. (Inr (ok (message_body ''Deleted'')), s1, [])))"

definition get_testimonials :: "env \<Rightarrow> request \<Rightarrow> store \<Rightarrow> outcome \<times> store \<times> call list" where
  "get_testimonials e req s =
     no_catch (await (Model_find_sort e 0 KTestimonial s) (\<lambda>ds s1. (Inr (ok (Docs ds)), s1, [])))"

subsection \<open>The routes of the application\<close>

datatype route =
    PostProfile | GetProfile
  | PostProjects | GetProjects | PutProject nat | DeleteProject nat
  | PostExperience | GetExperience | PutExperience nat | DeleteExperience nat
  | PostCertifications | GetCertifications | DeleteCertification nat
  | PostContact | GetContact
  | PostTestimonials | PutTestimonial nat | DeleteTestimonial nat | GetTestimonials

fun handle :: "env \<Rightarrow> route \<Rightarrow> request \<Rightarrow> store \<Rightarrow> outcome \<times> store \<times> call list" where
  "handle e PostProfile = post_profile e"
| "handle e GetProfile = get_profile e"
| "handle e PostProjects = post_projects e"
| "handle e GetProjects = get_projects e"
| "handle e (PutProject i) = put_project e i"
| "handle e (DeleteProject i) = delete_project e i"
| "handle e PostExperience = post_experience e"
| "handle e GetExperience = get_experience e"
| "handle e (PutExperience i) = put_experience e i"
| "handle e (DeleteExperience i) = delete_experience e i"
| "handle e PostCertifications = post_certifications e"
| "handle e GetCertifications = get_certifications e"
| "handle e (DeleteCertification i) = delete_certification e i"
| "handle e PostContact = post_contact e"
| "handle e GetContact = get_contact e"
| "handle e PostTestimonials = post_testimonials e"
| "handle e (PutTestimonial i) = put_testimonial e i"
| "handle e (DeleteTestimonial i) = delete_testimonial e i"
| "handle e GetTestimonials = get_testimonials e"

text \<open>Requests handled one after the other, each to completion.\<close>

fun run :: "(env \<times> route \<times> request) list \<Rightarrow> store \<Rightarrow> store" where
  "run [] s = s"
| "run ((e, r, q) # rest) s = run rest (fst (snd (handle e r q s)))"

section \<open>Tables and sample inputs used by the statements\<close>

abbreviation calls_of :: "outcome \<times> store \<times> call list \<Rightarrow> call list" where
  "calls_of x \<equiv> snd (snd x)"

abbreviation store_of :: "outcome \<times> store \<times> call list \<Rightarrow> store" where
  "store_of x \<equiv> fst (snd x)"

text \<open>
  The routes registered with \<^verbatim>\<open>upload.single(...)\<close> and the folder each passes to
  \<^verbatim>\<open>uploadToCloudinary\<close>.
\<close>

definition upload_folder :: "route \<Rightarrow> string option" where
  "upload_folder r =
     (case r of
        PostProfile \<Rightarrow> Some ''portfolio/profile''
      | PostProjects \<Rightarrow> Some ''portfolio/projects''
      | PutProject i \<Rightarrow> Some ''portfolio/projects''
      | PostCertifications \<Rightarrow> Some ''portfolio/certifications''
      | _ \<Rightarrow> None)"

definition cloud_down :: "buffer \<Rightarrow> string \<Rightarrow> jsval \<times> jsval" where
  "cloud_down buf folder =
     (JObj [(''message'', JStr ''quota exceeded''), (''http_code'', JNum 420)], JUndefined)"

definition no_dates :: "jsval \<Rightarrow> int option" where
  "no_dates v = None"

definition env_down :: env where
  "env_down = \<lparr>cloud = cloud_down, faults = [], now = 1000, read_date = no_dates\<rparr>"

definition req_photo :: request where
  "req_photo = \<lparr>req_body = JObj [(''name'', JStr ''Ada'')], req_file = Some [137, 80, 78, 71]\<rparr>"

definition cloud_up :: "buffer \<Rightarrow> string \<Rightarrow> jsval \<times> jsval" where
  "cloud_up buf folder = (JUndefined, JObj [(''secure_url'', JStr ''https://res.example/u.png'')])"

definition env_up :: env where
  "env_up = \<lparr>cloud = cloud_up, faults = [], now = 1000, read_date = no_dates\<rparr>"

definition req_cert :: request where
  "req_cert =
     \<lparr>req_body = JObj [(''name'', JStr ''AWS SA''), (''image'', JStr ''https://img.example/c.png'')],
      req_file = None\<rparr>"

definition req_up :: request where
  "req_up =
     \<lparr>req_body = JObj [(''name'', JStr ''Ada''), (''photo'', JStr ''old.png''),
                  (''image'', JStr ''old.png''), (''tech'', JStr ''Go,Rust,C++'')],
      req_file = Some [137, 80, 78, 71]\<rparr>"

definition req_tech_spaces :: request where
  "req_tech_spaces = \<lparr>req_body = JObj [(''tech'', JStr ''Go, Rust'')], req_file = None\<rparr>"

definition req_no_tech :: request where
  "req_no_tech = \<lparr>req_body = JObj [(''title'', JStr ''Portfolio'')], req_file = None\<rparr>"

definition req_empty :: request where
  "req_empty = \<lparr>req_body = JObj [], req_file = None\<rparr>"

definition req_contact :: request where
  "req_contact =
     \<lparr>req_body = JObj [(''name'', JStr ''Ada''), (''email'', JStr ''ada@example.org''),
                  (''message'', JStr ''Hello'')],
      req_file = None\<rparr>"


definition store_with_profile :: store where
  "store_with_profile =
     \<lparr>colls = (\<lambda>k. [])(KProfile :=
        [\<lparr>rid = 0, created = None,
          attrs = [(''name'', JStr ''Ada''), (''title'', JStr ''Engineer''), (''photo'', JStr ''a.png'')]\<rparr>]),
      next_id = 1\<rparr>"

definition req_title :: request where
  "req_title = \<lparr>req_body = JObj [(''title'', JStr ''Architect'')], req_file = None\<rparr>"

text \<open>
  A Contact request that passes the presence check, and a request whose body is a plain
  object with no \<^verbatim>\<open>createdAt\<close> of its own.
\<close>

definition contact_complete :: "request \<Rightarrow> bool" where
  "contact_complete q =
     (truthy (jsprop (req_body q) ''name'') \<and> truthy (jsprop (req_body q) ''email'') \<and>
      truthy (jsprop (req_body q) ''message''))"

definition stamped_by_store :: "request \<Rightarrow> bool" where
  "stamped_by_store q =
     (case req_body q of JObj b \<Rightarrow> getf b ''createdAt'' = JUndefined | _ \<Rightarrow> False)"

definition env_at :: "int \<Rightarrow> env" where
  "env_at t = \<lparr>cloud = cloud_up, faults = [], now = t, read_date = no_dates\<rparr>"

definition req_msg :: "string \<Rightarrow> request" where
  "req_msg m =
     \<lparr>req_body = JObj [(''name'', JStr ''Ada''), (''email'', JStr ''ada@example.org''), (''message'', JStr m)],
      req_file = None\<rparr>"

definition store_error :: jsval where
  "store_error = JObj [(''name'', JStr ''MongoNetworkError''), (''message'', JStr ''connection lost'')]"

definition env_store_down :: env where
  "env_store_down =
     \<lparr>cloud = cloud_up, faults = [Some store_error], now = 1000, read_date = no_dates\<rparr>"

definition req_no_body :: request where
  "req_no_body = \<lparr>req_body = JUndefined, req_file = None\<rparr>"

definition req_backdated :: "string \<Rightarrow> request" where
  "req_backdated m =
     \<lparr>req_body = JObj [(''name'', JStr ''Ada''), (''email'', JStr ''ada@example.org''),
                       (''message'', JStr m), (''createdAt'', JNum 5)],
      req_file = None\<rparr>"

section \<open>Basic facts\<close>

lemma await_Inl: "await (Inl x, s, c) f = (Inl x, s, c)"
  by (simp add: await_def)

lemma await_Inr: "await (Inr v, s, c) f = (case f v s of (r, s2, c2) \<Rightarrow> (r, s2, c @ c2))"
  by (simp add: await_def)

lemma await_throws_Inl: "await (throws (Inl x) s) f = (Inl x, s, [])"
  by (simp add: await_def throws_def)

lemma await_throws_Inr: "await (throws (Inr v) s) f = f v s"
  by (simp add: await_def throws_def split: prod.splits)

lemma truthy_not_nullish: "truthy x \<Longrightarrow> x \<noteq> JUndefined \<and> x \<noteq> JNull"
  by (cases x) simp_all

lemma upload_rejects_truthy: "uploadToCloudinary e buf folder = Inl x \<Longrightarrow> truthy x"
  by (auto simp: uploadToCloudinary_def split: prod.splits if_splits)

lemma get_prop_truthy: "truthy x \<Longrightarrow> get_prop x k = Inr (jsprop x k)"
  using truthy_not_nullish [of x] by (simp add: get_prop_def)

lemma upload_step_rejects:
  "req_file req = Some buf \<Longrightarrow> uploadToCloudinary e buf folder = Inl x \<Longrightarrow>
   upload_step e (req_file req) folder = Inl x"
  by (simp add: upload_step_def)

lemma try_catch_truthy:
  "truthy x \<Longrightarrow>
   try_catch (Inl x, s, c) =
     (Responded \<lparr>status = 500, sent = error_body (jsprop x ''message'')\<rparr>, s, c)"
  by (simp add: try_catch_def get_prop_truthy)

lemmas run_defs =
  post_profile_def post_profile_try_def get_profile_def
  post_projects_def post_projects_try_def get_projects_def put_project_def put_project_try_def
  delete_project_def post_experience_def get_experience_def put_experience_def
  delete_experience_def post_certifications_def post_certifications_try_def
  get_certifications_def delete_certification_def post_contact_def get_contact_def
  post_testimonials_def put_testimonial_def delete_testimonial_def get_testimonials_def
  upload_step_def uploadToCloudinary_def get_prop_def getf_def
  Model_create_def Model_findOne_def Model_find_def Model_find_sort_def
  Model_findByIdAndUpdate_def Model_findByIdAndDelete_def fault_at_def
  st_create_one_def st_findOne_def st_find_def st_find_newest_first_def newest_first_def
  st_update_def st_delete_def created_at_def persist_def with_defaults_def array_paths_def
  schema_def timestamps_def
  await_def throws_def try_catch_def no_catch_def ok_def error_body_def message_body_def
  profile_data_def project_create_data_def project_update_data_def certification_data_def
  req_tech_def destructure_def
  and_field_def split_comma_def falsy_def empty_store_def Let_def

section \<open>Upload failure aborts the request\<close>

text \<open>
  C1. On each of the four routes that accept an attached file, when a file is attached
  and the upload promise is rejected with \<open>x\<close>, the handler makes no model call at all,
  the store is left exactly as it was, and the response is status 500 with the body
  \<^verbatim>\<open>{ error: x.message }\<close>.
\<close>

theorem upload_failure_aborts:
  assumes "upload_folder r = Some folder"
    and "req_file req = Some buf"
    and "uploadToCloudinary e buf folder = Inl x"
  shows "handle e r req s =
           (Responded \<lparr>status = 500, sent = error_body (jsprop x ''message'')\<rparr>, s, [])"
proof -
  have t: "truthy x" using assms(3) by (rule upload_rejects_truthy)
  have u: "upload_step e (req_file req) folder = Inl x"
    using assms(2,3) by (rule upload_step_rejects)
  show ?thesis
    using assms(1) u
    by (cases r)
       (simp_all add: upload_folder_def post_profile_def post_profile_try_def
          post_projects_def post_projects_try_def put_project_def put_project_try_def
          post_certifications_def post_certifications_try_def
          await_throws_Inl try_catch_truthy [OF t])
qed

theorem upload_failure_aborts_witness:
  "upload_folder PostProfile = Some ''portfolio/profile'' \<and>
   req_file req_photo = Some [137, 80, 78, 71] \<and>
   uploadToCloudinary env_down [137, 80, 78, 71] ''portfolio/profile''
     = Inl (JObj [(''message'', JStr ''quota exceeded''), (''http_code'', JNum 420)]) \<and>
   handle env_down PostProfile req_photo empty_store =
     (Responded \<lparr>status = 500, sent = Json (JObj [(''error'', JStr ''quota exceeded'')])\<rparr>,
      empty_store, [])"
proof -
  have a: "upload_folder PostProfile = Some ''portfolio/profile''"
    by (simp add: upload_folder_def)
  have b: "req_file req_photo = Some [137, 80, 78, 71]"
    by (simp add: req_photo_def)
  have c: "uploadToCloudinary env_down [137, 80, 78, 71] ''portfolio/profile''
     = Inl (JObj [(''message'', JStr ''quota exceeded''), (''http_code'', JNum 420)])"
    by (simp add: uploadToCloudinary_def env_down_def cloud_down_def)
  show ?thesis
    using a b c upload_failure_aborts [OF a b c, of empty_store]
    by (simp add: error_body_def getf_def)
qed

section \<open>The field sets handed to the models\<close>

lemma map_of_profile_data:
  "map_of (profile_data b u) k = (if k = ''photo'' \<and> truthy u then Some u else map_of (spread b) k)"
  by (simp add: profile_data_def and_field_def update_conv')

lemma map_of_project_create_data:
  "map_of (project_create_data b t u) k =
     (if k = ''image'' then Some u else if k = ''tech'' then Some t else map_of (spread b) k)"
  by (simp add: project_create_data_def update_conv')

lemma map_of_project_update_data:
  "map_of (project_update_data b t u) k =
     (if k = ''image'' \<and> truthy u then Some u
      else if k = ''tech'' then Some t else map_of (spread b) k)"
  by (simp add: project_update_data_def and_field_def update_conv')

lemma map_of_certification_data:
  "map_of (certification_data b u) k = (if k = ''image'' then Some u else map_of (spread b) k)"
  by (simp add: certification_data_def update_conv')

lemma calls_try_catch: "snd (snd (try_catch m)) = snd (snd m)"
  by (simp add: try_catch_def split: prod.splits sum.splits)


lemma calls_Model_create: "snd (snd (Model_create e i k f s)) = [Create k f]"
  by (simp add: Model_create_def split: option.splits sum.splits prod.splits)

lemma calls_Model_update: "snd (snd (Model_findByIdAndUpdate e i k n f s)) = [FindByIdAndUpdate k n f]"
  by (simp add: Model_findByIdAndUpdate_def split: option.splits sum.splits prod.splits)

lemma calls_await_last:
  "snd (snd (await m (\<lambda>x s. (Inr (g x), s, [])))) = snd (snd m)"
  by (cases m) (auto simp: await_def split: sum.splits)

lemma calls_post_certifications:
  "upload_step e (req_file req) ''portfolio/certifications'' = Inr u \<Longrightarrow>
   snd (snd (post_certifications e req s)) = [Create KCertification (JObj (certification_data (req_body req) u))]"
  by (simp add: post_certifications_def post_certifications_try_def calls_try_catch
        await_throws_Inr calls_await_last calls_Model_create)

lemma calls_post_projects:
  "upload_step e (req_file req) ''portfolio/projects'' = Inr u \<Longrightarrow>
   req_tech (req_body req) = Inr t \<Longrightarrow>
   snd (snd (post_projects e req s)) = [Create KProject (JObj (project_create_data (req_body req) t u))]"
  by (simp add: post_projects_def post_projects_try_def calls_try_catch
        await_throws_Inr calls_await_last calls_Model_create)

lemma calls_put_project:
  "upload_step e (req_file req) ''portfolio/projects'' = Inr u \<Longrightarrow>
   req_tech (req_body req) = Inr t \<Longrightarrow>
   snd (snd (put_project e i req s)) = [FindByIdAndUpdate KProject i (JObj (project_update_data (req_body req) t u))]"
  by (simp add: put_project_def put_project_try_def calls_try_catch
        await_throws_Inr calls_await_last calls_Model_update)

lemma calls_post_profile:
  assumes "upload_step e (req_file req) ''portfolio/profile'' = Inr u"
    and "fault_at e 0 = None"
  shows "snd (snd (post_profile e req s)) =
     [FindOne KProfile,
      (case st_findOne KProfile s of
         None \<Rightarrow> Create KProfile (JObj (profile_data (req_body req) u))
       | Some p \<Rightarrow> FindByIdAndUpdate KProfile (rid p) (JObj (profile_data (req_body req) u)))]"
proof (cases "st_findOne KProfile s")
  case None
  then show ?thesis
    using assms
    by (simp add: post_profile_def post_profile_try_def calls_try_catch
        await_throws_Inr Model_findOne_def await_Inr calls_await_last calls_Model_create
        split_beta)
next
  case (Some p)
  then show ?thesis
    using assms
    by (simp add: post_profile_def post_profile_try_def calls_try_catch
        await_throws_Inr Model_findOne_def await_Inr calls_await_last calls_Model_update
        split_beta)
qed

lemma upload_step_no_file: "upload_step e None folder = Inr JUndefined"
  by (simp add: upload_step_def)

text \<open>
  C2 (as amended). Let \<open>u\<close> be what the upload step leaves in the handler's variable: the
  uploaded file's \<^verbatim>\<open>secure_url\<close>, or \<^verbatim>\<open>undefined\<close> when no file is attached. The
  Profile write and the Project update hand the model the caller's fields, with the
  attachment field overwritten by \<open>u\<close> exactly when \<open>u\<close> is truthy; without a file the
  caller's own value for that field passes through. The Project create and the
  Certification create always overwrite the attachment field with \<open>u\<close>, so without a
  file the field is \<^verbatim>\<open>undefined\<close> whatever the caller supplied. (For a Project the
  \<^verbatim>\<open>tech\<close> field is replaced as well; that is C3.)
\<close>

theorem attachment_field_set:
  "(upload_step e (req_file req) ''portfolio/profile'' = Inr u \<and> fault_at e 0 = None \<longrightarrow>
      calls_of (post_profile e req s) =
        [FindOne KProfile,
         (case st_findOne KProfile s of
            None \<Rightarrow> Create KProfile (JObj (profile_data (req_body req) u))
          | Some p \<Rightarrow> FindByIdAndUpdate KProfile (rid p) (JObj (profile_data (req_body req) u)))] \<and>
      (\<forall>k. map_of (profile_data (req_body req) u) k =
            (if k = ''photo'' \<and> truthy u then Some u else map_of (spread (req_body req)) k))) \<and>
   (upload_step e (req_file req) ''portfolio/projects'' = Inr u \<and>
    req_tech (req_body req) = Inr t \<longrightarrow>
      calls_of (put_project e i req s) =
        [FindByIdAndUpdate KProject i (JObj (project_update_data (req_body req) t u))] \<and>
      (\<forall>k. k \<noteq> ''tech'' \<longrightarrow> map_of (project_update_data (req_body req) t u) k =
            (if k = ''image'' \<and> truthy u then Some u else map_of (spread (req_body req)) k)) \<and>
      calls_of (post_projects e req s) =
        [Create KProject (JObj (project_create_data (req_body req) t u))] \<and>
      (\<forall>k. k \<noteq> ''tech'' \<longrightarrow> map_of (project_create_data (req_body req) t u) k =
            (if k = ''image'' then Some u else map_of (spread (req_body req)) k))) \<and>
   (upload_step e (req_file req) ''portfolio/certifications'' = Inr u \<longrightarrow>
      calls_of (post_certifications e req s) =
        [Create KCertification (JObj (certification_data (req_body req) u))] \<and>
      (\<forall>k. map_of (certification_data (req_body req) u) k =
            (if k = ''image'' then Some u else map_of (spread (req_body req)) k))) \<and>
   (req_file req = None \<longrightarrow> upload_step e (req_file req) folder = Inr JUndefined)"
  by (simp add: calls_post_profile calls_put_project calls_post_projects
        calls_post_certifications map_of_profile_data map_of_project_update_data
        map_of_project_create_data map_of_certification_data upload_step_no_file)

theorem attachment_field_set_witness:
  "upload_step env_up (req_file req_up) ''portfolio/profile'' = Inr (JStr ''https://res.example/u.png'') \<and>
   fault_at env_up 0 = None \<and>
   calls_of (post_profile env_up req_up empty_store) =
     [FindOne KProfile,
      Create KProfile
        (JObj [(''name'', JStr ''Ada''), (''photo'', JStr ''https://res.example/u.png''),
               (''image'', JStr ''old.png''), (''tech'', JStr ''Go,Rust,C++'')])] \<and>
   upload_step env_up (req_file req_up) ''portfolio/projects'' = Inr (JStr ''https://res.example/u.png'') \<and>
   req_tech (req_body req_up) = Inr (JArr [JStr ''Go'', JStr ''Rust'', JStr ''C++'']) \<and>
   calls_of (put_project env_up 7 req_up empty_store) =
     [FindByIdAndUpdate KProject 7
        (JObj [(''name'', JStr ''Ada''), (''photo'', JStr ''old.png''),
               (''image'', JStr ''https://res.example/u.png''),
               (''tech'', JArr [JStr ''Go'', JStr ''Rust'', JStr ''C++''])])] \<and>
   calls_of (post_projects env_up req_up empty_store) =
     [Create KProject
        (JObj [(''name'', JStr ''Ada''), (''photo'', JStr ''old.png''),
               (''image'', JStr ''https://res.example/u.png''),
               (''tech'', JArr [JStr ''Go'', JStr ''Rust'', JStr ''C++''])])] \<and>
   upload_step env_up (req_file req_up) ''portfolio/certifications'' = Inr (JStr ''https://res.example/u.png'') \<and>
   calls_of (post_certifications env_up req_up empty_store) =
     [Create KCertification
        (JObj [(''name'', JStr ''Ada''), (''photo'', JStr ''old.png''),
               (''image'', JStr ''https://res.example/u.png''),
               (''tech'', JStr ''Go,Rust,C++'')])] \<and>
   req_file req_cert = None \<and>
   upload_step env_up (req_file req_cert) ''portfolio/profile'' = Inr JUndefined"
proof -
  have a: "upload_step env_up (req_file req_up) folder = Inr (JStr ''https://res.example/u.png'')" for folder
    by (simp add: upload_step_def uploadToCloudinary_def env_up_def cloud_up_def req_up_def
          get_prop_def getf_def)
  have b: "fault_at env_up 0 = None"
    by (simp add: fault_at_def env_up_def)
  have c: "req_tech (req_body req_up) = Inr (JArr [JStr ''Go'', JStr ''Rust'', JStr ''C++''])"
    by (simp add: req_up_def req_tech_def get_prop_def getf_def split_comma_def)
  have d: "req_file req_cert = None"
    by (simp add: req_cert_def)
  have e: "st_findOne KProfile empty_store = None"
    by (simp add: st_findOne_def empty_store_def)
  have f: "req_body req_up = JObj [(''name'', JStr ''Ada''), (''photo'', JStr ''old.png''),
                  (''image'', JStr ''old.png''), (''tech'', JStr ''Go,Rust,C++'')]"
    by (simp add: req_up_def)
  note T1 = attachment_field_set [of env_up req_up "JStr ''https://res.example/u.png''" empty_store
        "JArr [JStr ''Go'', JStr ''Rust'', JStr ''C++'']" 7 "''portfolio/profile''"]
  note T2 = attachment_field_set [of env_up req_cert JUndefined empty_store JUndefined 0
        "''portfolio/profile''"]
  have p1: "calls_of (post_profile env_up req_up empty_store) =
        [FindOne KProfile,
         (case st_findOne KProfile empty_store of
            None \<Rightarrow> Create KProfile
              (JObj (profile_data (req_body req_up) (JStr ''https://res.example/u.png'')))
          | Some p \<Rightarrow> FindByIdAndUpdate KProfile (rid p)
              (JObj (profile_data (req_body req_up) (JStr ''https://res.example/u.png''))))]"
    using T1 a b by blast
  have p2: "calls_of (put_project env_up 7 req_up empty_store) =
        [FindByIdAndUpdate KProject 7 (JObj (project_update_data (req_body req_up)
           (JArr [JStr ''Go'', JStr ''Rust'', JStr ''C++'']) (JStr ''https://res.example/u.png'')))]"
    using T1 a c by blast
  have p3: "calls_of (post_projects env_up req_up empty_store) =
        [Create KProject (JObj (project_create_data (req_body req_up)
           (JArr [JStr ''Go'', JStr ''Rust'', JStr ''C++'']) (JStr ''https://res.example/u.png'')))]"
    using T1 a c by blast
  have p4: "calls_of (post_certifications env_up req_up empty_store) =
        [Create KCertification
           (JObj (certification_data (req_body req_up) (JStr ''https://res.example/u.png'')))]"
    using T1 a by blast
  have p5: "upload_step env_up (req_file req_cert) ''portfolio/profile'' = Inr JUndefined"
    using T2 d by blast
  show ?thesis
    unfolding p1 p2 p3 p4 p5 a c
    by (simp add: b d e f profile_data_def project_update_data_def project_create_data_def
          certification_data_def and_field_def)
qed

text \<open>
  C2 as stated fails on \<^verbatim>\<open>POST /api/certifications\<close>: no file attached, the caller
  supplies \<^verbatim>\<open>image\<close>, the value handed to \<^verbatim>\<open>Certification.create\<close> carries
  \<^verbatim>\<open>image: undefined\<close>, and the stored document has no image.
\<close>

theorem caller_image_dropped_on_create:
  "req_file req_cert = None \<and>
   jsprop (req_body req_cert) ''image'' = JStr ''https://img.example/c.png'' \<and>
   calls_of (post_certifications env_up req_cert empty_store) =
     [Create KCertification (JObj [(''name'', JStr ''AWS SA''), (''image'', JUndefined)])] \<and>
   colls (store_of (post_certifications env_up req_cert empty_store)) KCertification =
     [\<lparr>rid = 0, created = Some 1000, attrs = [(''name'', JStr ''AWS SA'')]\<rparr>]"
  by (simp add: run_defs req_cert_def env_up_def)

section \<open>The tech field of a Project\<close>

lemma split_on_not_Nil: "split_on c s \<noteq> []"
  by (induction s) (auto split: list.splits)

lemma join_split_on: "join [c] (split_on c s) = s"
proof (induction s)
  case Nil
  show ?case by simp
next
  case (Cons x xs)
  show ?case
  proof (cases "split_on c xs")
    case Nil
    then show ?thesis using split_on_not_Nil [of c xs] by simp
  next
    case (Cons p ps)
    then show ?thesis using Cons.IH by (cases ps) auto
  qed
qed

lemma split_on_no_sep: "p \<in> set (split_on c s) \<Longrightarrow> c \<notin> set p"
  by (induction s arbitrary: p) (auto split: if_splits list.splits)

lemma split_on_pieces: "p \<in> set (split_on c s) \<Longrightarrow> set p \<subseteq> set s"
proof (induction s arbitrary: p)
  case Nil
  then show ?case by simp
next
  case (Cons x xs)
  show ?case
  proof (cases "split_on c xs")
    case Nil
    then show ?thesis using split_on_not_Nil [of c xs] by simp
  next
    case (Cons q qs)
    then show ?thesis
      using Cons.prems Cons.IH [of q] Cons.IH [of p]
      by (auto split: if_splits)
  qed
qed

lemma dropWhile_none: "\<forall>x\<in>set p. \<not> P x \<Longrightarrow> dropWhile P p = p"
  by (cases p) auto

lemma spec_trim_id: "\<forall>x\<in>set p. \<not> is_space x \<Longrightarrow> spec_trim p = p"
  by (simp add: spec_trim_def dropWhile_none)

lemma spec_tech_id:
  assumes "\<forall>x\<in>set t. \<not> is_space x"
  shows "spec_tech t = split_comma t"
proof -
  have "spec_trim p = p" if "p \<in> set (split_comma t)" for p
    using that assms split_on_pieces [of p "CHR '',''" t]
    by (intro spec_trim_id) (auto simp: split_comma_def)
  then show ?thesis
    by (simp add: spec_tech_def map_idI)
qed

lemma split_go: "split_comma ''Go,Rust,C++'' = [''Go'', ''Rust'', ''C++'']"
  by (simp add: split_comma_def)

lemma jsprop_not_nullish: "jsprop b k \<noteq> JUndefined \<Longrightarrow> b \<noteq> JUndefined \<and> b \<noteq> JNull"
  by (cases b) simp_all

lemma req_tech_string:
  "jsprop b ''tech'' = JStr t \<Longrightarrow> req_tech b = Inr (JArr (map JStr (split_comma t)))"
  using jsprop_not_nullish [of b "''tech''"] by (simp add: req_tech_def get_prop_def)

lemma req_tech_absent:
  "b \<noteq> JUndefined \<Longrightarrow> b \<noteq> JNull \<Longrightarrow> jsprop b ''tech'' = JUndefined \<Longrightarrow>
   req_tech b = Inr JUndefined"
  by (simp add: req_tech_def get_prop_def)

lemma req_tech_no_body:
  "b = JUndefined \<or> b = JNull \<Longrightarrow>
   req_tech b =
     Inl (type_error ''Cannot read properties of undefined or null (reading tech)'')"
  by (auto simp: req_tech_def get_prop_def)

lemma map_of_defined:
  "map_of kvs k = Some v \<Longrightarrow> v \<noteq> JUndefined \<Longrightarrow>
   map_of (filter (\<lambda>(p, v). v \<noteq> JUndefined) kvs) k = Some v"
  by (induction kvs) (auto split: if_splits)

lemma getf_defined:
  "getf kvs k \<noteq> JUndefined \<Longrightarrow>
   getf (filter (\<lambda>(p, v). v \<noteq> JUndefined) kvs) k = getf kvs k"
  using map_of_defined [of kvs k "getf kvs k"]
  by (cases "map_of kvs k") (simp_all add: getf_def)

lemma with_defaults_project:
  "with_defaults KProject flds =
     (if getf flds ''tech'' = JUndefined then AList.update ''tech'' (JArr []) flds else flds)"
  by (simp add: with_defaults_def array_paths_def schema_def)

lemma persist_project_tech:
  "getf (persist KProject flds) ''tech'' =
     (if getf flds ''tech'' = JUndefined then JArr [] else getf flds ''tech'')"
proof (cases "getf flds ''tech'' = JUndefined")
  case True
  have "getf (AList.update ''tech'' (JArr []) flds) ''tech'' = JArr []"
    by (simp add: getf_def update_conv')
  then show ?thesis
    using True getf_defined [of "AList.update ''tech'' (JArr []) flds" "''tech''"]
    by (simp add: persist_def with_defaults_project)
next
  case False
  then show ?thesis
    using getf_defined [of flds "''tech''"]
    by (simp add: persist_def with_defaults_project)
qed

lemma Model_create_ok:
  "fault_at e i = None \<Longrightarrow> created_at e k flds = Inr c \<Longrightarrow>
   Model_create e i k (JObj flds) s =
     (Inr (Doc (Some \<lparr>rid = next_id s, created = c, attrs = persist k flds\<rparr>)),
      s\<lparr>colls := (colls s)(k := colls s k @
            [\<lparr>rid = next_id s, created = c, attrs = persist k flds\<rparr>]),
        next_id := Suc (next_id s)\<rparr>,
      [Create k (JObj flds)])"
  by (simp add: Model_create_def st_create_one_def)

lemma Model_create_fault:
  "fault_at e i = Some x \<Longrightarrow> Model_create e i k v s = (Inl x, s, [Create k v])"
  by (simp add: Model_create_def)

lemma store_post_projects:
  "upload_step e (req_file req) ''portfolio/projects'' = Inr u \<Longrightarrow>
   req_tech (req_body req) = Inr t \<Longrightarrow>
   fault_at e 0 = None \<Longrightarrow>
   created_at e KProject (project_create_data (req_body req) t u) = Inr c \<Longrightarrow>
   colls (fst (snd (post_projects e req s))) KProject =
     colls s KProject @
       [\<lparr>rid = next_id s, created = c,
         attrs = persist KProject (project_create_data (req_body req) t u)\<rparr>]"
  by (simp add: post_projects_def post_projects_try_def await_throws_Inr Model_create_ok
        await_Inr try_catch_def)

lemma getf_project_create_data_tech: "getf (project_create_data b t u) ''tech'' = t"
  by (simp add: getf_def map_of_project_create_data)

text \<open>
  C3 (as amended). When a Project create or update supplies \<^verbatim>\<open>tech\<close> as a string
  \<open>t\<close>, the value handed to the model (and, on a create that succeeds, the stored
  document) carries under \<^verbatim>\<open>tech\<close> the pieces of \<open>t\<close> between its commas, in order
  and exactly as they stand: joining them with commas gives \<open>t\<close> back and no piece
  contains a comma. Nothing is trimmed; the pieces equal the trimmed pieces when \<open>t\<close>
  contains no white space, as for \<^verbatim>\<open>"Go,Rust,C++"\<close>, which gives
  \<^verbatim>\<open>["Go","Rust","C++"]\<close>.
\<close>

theorem tech_stored_as_split:
  assumes "jsprop (req_body req) ''tech'' = JStr t"
    and "upload_step e (req_file req) ''portfolio/projects'' = Inr u"
  shows "calls_of (post_projects e req s) =
           [Create KProject
              (JObj (project_create_data (req_body req) (JArr (map JStr (split_comma t))) u))] \<and>
         map_of (project_create_data (req_body req) (JArr (map JStr (split_comma t))) u) ''tech'' =
           Some (JArr (map JStr (split_comma t))) \<and>
         (fault_at e 0 = None \<and>
          created_at e KProject
            (project_create_data (req_body req) (JArr (map JStr (split_comma t))) u) = Inr c \<longrightarrow>
            colls (store_of (post_projects e req s)) KProject =
              colls s KProject @
                [\<lparr>rid = next_id s, created = c,
                  attrs = persist KProject
                    (project_create_data (req_body req) (JArr (map JStr (split_comma t))) u)\<rparr>] \<and>
            getf (persist KProject
                    (project_create_data (req_body req) (JArr (map JStr (split_comma t))) u))
              ''tech'' = JArr (map JStr (split_comma t))) \<and>
         calls_of (put_project e i req s) =
           [FindByIdAndUpdate KProject i
              (JObj (project_update_data (req_body req) (JArr (map JStr (split_comma t))) u))] \<and>
         map_of (project_update_data (req_body req) (JArr (map JStr (split_comma t))) u) ''tech'' =
           Some (JArr (map JStr (split_comma t))) \<and>
         join '','' (split_comma t) = t \<and>
         (\<forall>p\<in>set (split_comma t). CHR '','' \<notin> set p) \<and>
         ((\<forall>c\<in>set t. \<not> is_space c) \<longrightarrow> split_comma t = spec_tech t) \<and>
         split_comma ''Go,Rust,C++'' = [''Go'', ''Rust'', ''C++'']"
proof -
  have ts: "req_tech (req_body req) = Inr (JArr (map JStr (split_comma t)))"
    using assms(1) by (rule req_tech_string)
  have j: "join '','' (split_comma t) = t"
    by (simp add: split_comma_def join_split_on)
  have n: "\<forall>p\<in>set (split_comma t). CHR '','' \<notin> set p"
    by (simp add: split_comma_def split_on_no_sep)
  show ?thesis
    using calls_post_projects [OF assms(2) ts] calls_put_project [OF assms(2) ts]
      store_post_projects [OF assms(2) ts] j n
    by (simp add: map_of_project_create_data map_of_project_update_data spec_tech_id split_go
          persist_project_tech getf_project_create_data_tech)
qed

theorem tech_stored_as_split_witness:
  "jsprop (req_body req_up) ''tech'' = JStr ''Go,Rust,C++'' \<and>
   upload_step env_up (req_file req_up) ''portfolio/projects'' = Inr (JStr ''https://res.example/u.png'') \<and>
   fault_at env_up 0 = None \<and>
   colls (store_of (post_projects env_up req_up empty_store)) KProject =
     [\<lparr>rid = 0, created = Some 1000,
       attrs = [(''name'', JStr ''Ada''), (''photo'', JStr ''old.png''),
                (''image'', JStr ''https://res.example/u.png''),
                (''tech'', JArr [JStr ''Go'', JStr ''Rust'', JStr ''C++''])]\<rparr>] \<and>
   list_all (\<lambda>c. \<not> is_space c) ''Go,Rust,C++'' \<and>
   spec_tech ''Go,Rust,C++'' = [''Go'', ''Rust'', ''C++'']"
proof -
  let ?data = "project_create_data (req_body req_up)
      (JArr (map JStr (split_comma ''Go,Rust,C++''))) (JStr ''https://res.example/u.png'')"
  have a: "jsprop (req_body req_up) ''tech'' = JStr ''Go,Rust,C++''"
    by (simp add: req_up_def getf_def)
  have b: "upload_step env_up (req_file req_up) ''portfolio/projects'' = Inr (JStr ''https://res.example/u.png'')"
    by (simp add: upload_step_def uploadToCloudinary_def env_up_def cloud_up_def req_up_def
          get_prop_def getf_def)
  have c: "fault_at env_up 0 = None"
    by (simp add: fault_at_def env_up_def)
  have d: "\<forall>c\<in>set ''Go,Rust,C++''. \<not> is_space c"
    by (simp add: is_space_def)
  have k: "created_at env_up KProject ?data = Inr (Some 1000)"
    by (simp add: created_at_def project_create_data_def req_up_def getf_def env_up_def
          split_comma_def)
  note T = tech_stored_as_split [OF a b, where s = empty_store and i = 0 and c = "Some 1000"]
  have st: "colls (store_of (post_projects env_up req_up empty_store)) KProject =
      colls empty_store KProject @
        [\<lparr>rid = next_id empty_store, created = Some 1000, attrs = persist KProject ?data\<rparr>]"
    using T c k by blast
  have sp: "split_comma ''Go,Rust,C++'' = spec_tech ''Go,Rust,C++''"
    using T d by blast
  have go: "split_comma ''Go,Rust,C++'' = [''Go'', ''Rust'', ''C++'']"
    using T by blast
  have pd: "persist KProject ?data =
      [(''name'', JStr ''Ada''), (''photo'', JStr ''old.png''),
       (''image'', JStr ''https://res.example/u.png''),
       (''tech'', JArr [JStr ''Go'', JStr ''Rust'', JStr ''C++''])]"
    by (simp add: persist_def with_defaults_project project_create_data_def req_up_def getf_def go)
  have sg: "spec_tech ''Go,Rust,C++'' = [''Go'', ''Rust'', ''C++'']"
    using sp go by simp
  show ?thesis
    unfolding st pd sg using a b c d
    by (simp add: empty_store_def list_all_iff)
qed

text \<open>
  C3 as stated fails for \<^verbatim>\<open>tech = "Go, Rust"\<close>: the second piece keeps its
  leading blank, on create and on update.
\<close>

theorem tech_not_trimmed:
  "jsprop (req_body req_tech_spaces) ''tech'' = JStr ''Go, Rust'' \<and>
   calls_of (post_projects env_up req_tech_spaces empty_store) =
     [Create KProject
        (JObj [(''tech'', JArr [JStr ''Go'', JStr '' Rust'']), (''image'', JUndefined)])] \<and>
   calls_of (put_project env_up 0 req_tech_spaces empty_store) =
     [FindByIdAndUpdate KProject 0 (JObj [(''tech'', JArr [JStr ''Go'', JStr '' Rust''])])] \<and>
   spec_tech ''Go, Rust'' = [''Go'', ''Rust'']"
  by (simp add: run_defs req_tech_spaces_def env_up_def spec_tech_def spec_trim_def is_space_def)

lemma post_projects_no_body:
  assumes "req_body req = JUndefined \<or> req_body req = JNull"
    and "upload_step e (req_file req) ''portfolio/projects'' = Inr u"
  shows "post_projects e req s =
     (Responded \<lparr>status = 500, sent = error_body
        (JStr ''Cannot read properties of undefined or null (reading tech)'')\<rparr>, s, [])"
  using assms(2) req_tech_no_body [OF assms(1)]
  by (simp add: post_projects_def post_projects_try_def await_throws_Inr await_throws_Inl
        try_catch_def get_prop_def type_error_def getf_def)

text \<open>
  C4 (as amended). When a Project create has a parsed body that supplies no
  \<^verbatim>\<open>tech\<close> field, the handler hands \<^verbatim>\<open>Project.create\<close> a value in which the key
  \<^verbatim>\<open>tech\<close> is bound to \<^verbatim>\<open>undefined\<close>, and the document stored by a create that
  succeeds has \<^verbatim>\<open>tech\<close> set to the empty sequence, the default of the schema's
  \<^verbatim>\<open>[String]\<close> path; the field is not left out. With no parsed body at all the
  handler answers 500 and nothing is created.
\<close>

theorem tech_absent_defaults_to_empty:
  "(req_body req \<noteq> JUndefined \<and> req_body req \<noteq> JNull \<and>
    jsprop (req_body req) ''tech'' = JUndefined \<and>
    upload_step e (req_file req) ''portfolio/projects'' = Inr u \<longrightarrow>
      calls_of (post_projects e req s) =
        [Create KProject (JObj (project_create_data (req_body req) JUndefined u))] \<and>
      map_of (project_create_data (req_body req) JUndefined u) ''tech'' = Some JUndefined \<and>
      (fault_at e 0 = None \<and>
       created_at e KProject (project_create_data (req_body req) JUndefined u) = Inr c \<longrightarrow>
         colls (store_of (post_projects e req s)) KProject =
           colls s KProject @
             [\<lparr>rid = next_id s, created = c,
               attrs = persist KProject (project_create_data (req_body req) JUndefined u)\<rparr>] \<and>
         getf (persist KProject (project_create_data (req_body req) JUndefined u)) ''tech'' =
           JArr [])) \<and>
   ((req_body req = JUndefined \<or> req_body req = JNull) \<and>
    upload_step e (req_file req) ''portfolio/projects'' = Inr u \<longrightarrow>
      post_projects e req s =
        (Responded \<lparr>status = 500, sent = error_body
           (JStr ''Cannot read properties of undefined or null (reading tech)'')\<rparr>, s, []))"
proof -
  have a: "calls_of (post_projects e req s) =
        [Create KProject (JObj (project_create_data (req_body req) JUndefined u))] \<and>
      map_of (project_create_data (req_body req) JUndefined u) ''tech'' = Some JUndefined \<and>
      (fault_at e 0 = None \<and>
       created_at e KProject (project_create_data (req_body req) JUndefined u) = Inr c \<longrightarrow>
         colls (store_of (post_projects e req s)) KProject =
           colls s KProject @
             [\<lparr>rid = next_id s, created = c,
               attrs = persist KProject (project_create_data (req_body req) JUndefined u)\<rparr>] \<and>
         getf (persist KProject (project_create_data (req_body req) JUndefined u)) ''tech'' =
           JArr [])"
    if h: "req_body req \<noteq> JUndefined" "req_body req \<noteq> JNull"
      "jsprop (req_body req) ''tech'' = JUndefined"
      "upload_step e (req_file req) ''portfolio/projects'' = Inr u"
  proof -
    have ts: "req_tech (req_body req) = Inr JUndefined"
      using h(1,2,3) by (rule req_tech_absent)
    show ?thesis
      using calls_post_projects [OF h(4) ts] store_post_projects [OF h(4) ts]
      by (simp add: map_of_project_create_data persist_project_tech
            getf_project_create_data_tech)
  qed
  show ?thesis
    using a post_projects_no_body [of req e u s] by blast
qed

theorem tech_absent_defaults_to_empty_witness:
  "req_body req_no_tech \<noteq> JUndefined \<and> req_body req_no_tech \<noteq> JNull \<and>
   jsprop (req_body req_no_tech) ''tech'' = JUndefined \<and>
   upload_step env_up (req_file req_no_tech) ''portfolio/projects'' = Inr JUndefined \<and>
   fault_at env_up 0 = None \<and>
   calls_of (post_projects env_up req_no_tech empty_store) =
     [Create KProject
        (JObj [(''title'', JStr ''Portfolio''), (''tech'', JUndefined), (''image'', JUndefined)])] \<and>
   colls (store_of (post_projects env_up req_no_tech empty_store)) KProject =
     [\<lparr>rid = 0, created = Some 1000,
       attrs = [(''title'', JStr ''Portfolio''), (''tech'', JArr [])]\<rparr>] \<and>
   req_body req_no_body = JUndefined \<and>
   upload_step env_up (req_file req_no_body) ''portfolio/projects'' = Inr JUndefined \<and>
   post_projects env_up req_no_body empty_store =
     (Responded \<lparr>status = 500, sent = Json (JObj [(''error'',
        JStr ''Cannot read properties of undefined or null (reading tech)'')])\<rparr>, empty_store, [])"
proof -
  let ?data = "project_create_data (req_body req_no_tech) JUndefined JUndefined"
  have a: "req_body req_no_tech \<noteq> JUndefined \<and> req_body req_no_tech \<noteq> JNull \<and>
      jsprop (req_body req_no_tech) ''tech'' = JUndefined"
    by (simp add: req_no_tech_def getf_def)
  have b: "upload_step env_up (req_file req_no_tech) ''portfolio/projects'' = Inr JUndefined"
    by (simp add: upload_step_def req_no_tech_def)
  have c: "fault_at env_up 0 = None"
    by (simp add: fault_at_def env_up_def)
  have k: "created_at env_up KProject ?data = Inr (Some 1000)"
    by (simp add: created_at_def project_create_data_def req_no_tech_def getf_def env_up_def)
  have nb: "req_body req_no_body = JUndefined"
    by (simp add: req_no_body_def)
  have nu: "upload_step env_up (req_file req_no_body) ''portfolio/projects'' = Inr JUndefined"
    by (simp add: upload_step_def req_no_body_def)
  note T1 = tech_absent_defaults_to_empty [where req = req_no_tech and e = env_up
      and u = JUndefined and s = empty_store and c = "Some 1000"]
  note T2 = tech_absent_defaults_to_empty [where req = req_no_body and e = env_up
      and u = JUndefined and s = empty_store and c = "Some 1000"]
  have p1: "calls_of (post_projects env_up req_no_tech empty_store) = [Create KProject (JObj ?data)]"
    using T1 a b by blast
  have p2: "colls (store_of (post_projects env_up req_no_tech empty_store)) KProject =
      colls empty_store KProject @
        [\<lparr>rid = next_id empty_store, created = Some 1000, attrs = persist KProject ?data\<rparr>]"
    using T1 a b c k by blast
  have p3: "post_projects env_up req_no_body empty_store =
     (Responded \<lparr>status = 500, sent = error_body
        (JStr ''Cannot read properties of undefined or null (reading tech)'')\<rparr>, empty_store, [])"
    using T2 nb nu by blast
  have pd: "persist KProject ?data = [(''title'', JStr ''Portfolio''), (''tech'', JArr [])]"
    by (simp add: persist_def with_defaults_project project_create_data_def req_no_tech_def getf_def)
  have dd: "?data = [(''title'', JStr ''Portfolio''), (''tech'', JUndefined), (''image'', JUndefined)]"
    by (simp add: project_create_data_def req_no_tech_def)
  show ?thesis
    unfolding p1 p2 p3 pd using a b c nb nu
    by (simp add: dd empty_store_def error_body_def)
qed

text \<open>
  C4 as stated fails: for a body without \<^verbatim>\<open>tech\<close> the stored document has
  \<^verbatim>\<open>tech\<close> set, to the empty sequence.
\<close>

theorem tech_persisted_as_empty_sequence:
  "jsprop (req_body req_no_tech) ''tech'' = JUndefined \<and>
   calls_of (post_projects env_up req_no_tech empty_store) =
     [Create KProject
        (JObj [(''title'', JStr ''Portfolio''), (''tech'', JUndefined), (''image'', JUndefined)])] \<and>
   colls (store_of (post_projects env_up req_no_tech empty_store)) KProject =
     [\<lparr>rid = 0, created = Some 1000,
       attrs = [(''title'', JStr ''Portfolio''), (''tech'', JArr [])]\<rparr>]"
  by (simp add: run_defs req_no_tech_def env_up_def)

section \<open>Reading the profile\<close>

lemma Model_findOne_ok:
  "fault_at e i = None \<Longrightarrow> Model_findOne e i k s = (Inr (st_findOne k s), s, [FindOne k])"
  by (simp add: Model_findOne_def)

text \<open>
  C10. When no Profile exists and the read itself does not throw,
  \<^verbatim>\<open>GET /api/profile\<close> answers with status 200 and the body \<^verbatim>\<open>null\<close> (not an error,
  not a 404); its only model call is \<^verbatim>\<open>findOne\<close> and the store is unchanged.
\<close>

theorem get_profile_absent:
  assumes "colls s KProfile = []"
    and "fault_at e 0 = None"
  shows "get_profile e req s = (Responded \<lparr>status = 200, sent = Doc None\<rparr>, s, [FindOne KProfile])"
  using assms
  by (simp add: get_profile_def Model_findOne_ok await_Inr no_catch_def st_findOne_def ok_def)

theorem get_profile_absent_witness:
  "colls empty_store KProfile = [] \<and> fault_at env_up 0 = None \<and>
   get_profile env_up req_empty empty_store =
     (Responded \<lparr>status = 200, sent = Doc None\<rparr>, empty_store, [FindOne KProfile])"
proof -
  have a: "colls empty_store KProfile = []" by (simp add: empty_store_def)
  have b: "fault_at env_up 0 = None" by (simp add: fault_at_def env_up_def)
  show ?thesis using a b get_profile_absent [OF a b, of req_empty] by simp
qed

section \<open>The presence check of a Contact\<close>







lemma complete_has_body:
  "contact_complete req \<Longrightarrow> req_body req \<noteq> JUndefined \<and> req_body req \<noteq> JNull"
  by (cases "req_body req") (simp_all add: contact_complete_def)



lemma post_contact_ok:
  "contact_complete req \<Longrightarrow> fault_at e 0 = None \<Longrightarrow> req_body req = JObj b \<Longrightarrow>
   created_at e KContact b = Inr c \<Longrightarrow>
   post_contact e req s =
     (Responded (ok (Json (JObj [(''success'', JBool True)]))),
      s\<lparr>colls := (colls s)(KContact := colls s KContact @
            [\<lparr>rid = next_id s, created = c, attrs = persist KContact b\<rparr>]),
        next_id := Suc (next_id s)\<rparr>,
      [Create KContact (req_body req)])"
  by (simp add: post_contact_def destructure_def contact_complete_def falsy_def Model_create_ok
        await_Inr no_catch_def)




section \<open>The profile is a singleton\<close>

lemma map_of_assign_absent: "map_of b k = None \<Longrightarrow> map_of (assign a b) k = map_of a k"
proof (induction b arbitrary: a)
  case Nil
  show ?case by simp
next
  case (Cons x b)
  obtain k' v' where x: "x = (k', v')" by (cases x)
  from Cons.prems x have "k' \<noteq> k" and "map_of b k = None"
    by (auto split: if_splits)
  with Cons.IH [of "AList.update k' v' a"] x show ?case
    by (simp add: update_conv')
qed

lemma st_update_head:
  "colls s k = p # ps \<Longrightarrow>
   st_update k (rid p) (JObj f) s =
     Inr (Some (p\<lparr>attrs := assign (attrs p) f\<rparr>),
          s\<lparr>colls := (colls s)(k :=
               map (\<lambda>x. if rid x = rid p then p\<lparr>attrs := assign (attrs p) f\<rparr> else x) (p # ps))\<rparr>)"
  by (simp add: st_update_def)

lemma Model_update_ok:
  "fault_at e i = None \<Longrightarrow> st_update k n v s = Inr (r, s') \<Longrightarrow>
   Model_findByIdAndUpdate e i k n v s = (Inr r, s', [FindByIdAndUpdate k n v])"
  by (simp add: Model_findByIdAndUpdate_def)

lemma created_at_profile: "created_at e KProfile flds = Inr None"
  by (simp add: created_at_def)

lemma post_profile_existing:
  assumes "colls s KProfile = p # ps"
    and "upload_step e (req_file req) ''portfolio/profile'' = Inr u"
    and "fault_at e 0 = None" and "fault_at e 1 = None"
  shows "post_profile e req s =
     (Responded (ok (Doc (Some (p\<lparr>attrs := assign (attrs p) (profile_data (req_body req) u)\<rparr>)))),
      s\<lparr>colls := (colls s)(KProfile :=
           map (\<lambda>x. if rid x = rid p
                     then p\<lparr>attrs := assign (attrs p) (profile_data (req_body req) u)\<rparr> else x) (p # ps))\<rparr>,
      [FindOne KProfile, FindByIdAndUpdate KProfile (rid p) (JObj (profile_data (req_body req) u))])"
proof -
  have f: "st_findOne KProfile s = Some p"
    using assms(1) by (simp add: st_findOne_def)
  show ?thesis
    using assms(2,3) f
    by (simp add: post_profile_def post_profile_try_def await_throws_Inr Model_findOne_ok
          await_Inr Model_update_ok [OF assms(4) st_update_head [OF assms(1)], unfolded One_nat_def] try_catch_def Let_def)
qed

lemma post_profile_first:
  assumes "colls s KProfile = []"
    and "upload_step e (req_file req) ''portfolio/profile'' = Inr u"
    and "fault_at e 0 = None" and "fault_at e 1 = None"
  shows "post_profile e req s =
     (Responded (ok (Doc (Some \<lparr>rid = next_id s, created = None,
        attrs = persist KProfile (profile_data (req_body req) u)\<rparr>))),
      s\<lparr>colls := (colls s)(KProfile :=
           [\<lparr>rid = next_id s, created = None,
             attrs = persist KProfile (profile_data (req_body req) u)\<rparr>]),
        next_id := Suc (next_id s)\<rparr>,
      [FindOne KProfile, Create KProfile (JObj (profile_data (req_body req) u))])"
proof -
  have f: "st_findOne KProfile s = None"
    using assms(1) by (simp add: st_findOne_def)
  show ?thesis
    using assms f
    by (simp add: post_profile_def post_profile_try_def await_throws_Inr Model_findOne_ok
          await_Inr Model_create_ok [OF assms(4) created_at_profile, unfolded One_nat_def] try_catch_def Let_def)
qed

text \<open>
  C6. A Profile write executed while a Profile exists (and with no failing upload or
  model call) updates the document that \<^verbatim>\<open>findOne\<close> returned: the result \<open>p'\<close> keeps
  its identifier, the collection keeps its size, and every field that the request does
  not supply (absent from the body, and not \<^verbatim>\<open>photo\<close> with an uploaded URL) keeps the
  value it had.
\<close>

theorem profile_update_merges:
  assumes "colls s KProfile = p # ps"
    and "upload_step e (req_file req) ''portfolio/profile'' = Inr u"
    and "fault_at e 0 = None" and "fault_at e 1 = None"
    and "p' = p\<lparr>attrs := assign (attrs p) (profile_data (req_body req) u)\<rparr>"
  shows "fst (post_profile e req s) = Responded (ok (Doc (Some p'))) \<and>
         calls_of (post_profile e req s) =
           [FindOne KProfile,
            FindByIdAndUpdate KProfile (rid p) (JObj (profile_data (req_body req) u))] \<and>
         st_findOne KProfile (store_of (post_profile e req s)) = Some p' \<and>
         length (colls (store_of (post_profile e req s)) KProfile) = length (colls s KProfile) \<and>
         rid p' = rid p \<and>
         (\<forall>k. map_of (spread (req_body req)) k = None \<and> (k = ''photo'' \<longrightarrow> \<not> truthy u) \<longrightarrow>
              map_of (attrs p') k = map_of (attrs p) k) \<and>
         (req_file req = None \<longrightarrow> \<not> truthy u)"
proof -
  have r: "\<forall>k. map_of (spread (req_body req)) k = None \<and> (k = ''photo'' \<longrightarrow> \<not> truthy u) \<longrightarrow>
              map_of (attrs p') k = map_of (attrs p) k"
  proof (intro allI impI)
    fix k
    assume h: "map_of (spread (req_body req)) k = None \<and> (k = ''photo'' \<longrightarrow> \<not> truthy u)"
    then have "map_of (profile_data (req_body req) u) k = None"
      by (auto simp: map_of_profile_data)
    then show "map_of (attrs p') k = map_of (attrs p) k"
      by (simp add: assms(5) map_of_assign_absent)
  qed
  have n: "req_file req = None \<longrightarrow> \<not> truthy u"
    using assms(2) by (auto simp: upload_step_def)
  show ?thesis
    using post_profile_existing [OF assms(1-4)] r n
    by (simp add: assms(1,5) st_findOne_def)
qed

theorem profile_update_merges_witness:
  "colls store_with_profile KProfile =
     \<lparr>rid = 0, created = None,
      attrs = [(''name'', JStr ''Ada''), (''title'', JStr ''Engineer''), (''photo'', JStr ''a.png'')]\<rparr> # [] \<and>
   upload_step env_up (req_file req_title) ''portfolio/profile'' = Inr JUndefined \<and>
   fault_at env_up 0 = None \<and> fault_at env_up 1 = None \<and>
   map_of (spread (req_body req_title)) ''photo'' = None \<and>
   st_findOne KProfile (store_of (post_profile env_up req_title store_with_profile)) =
     Some \<lparr>rid = 0, created = None,
           attrs = [(''name'', JStr ''Ada''), (''title'', JStr ''Architect''), (''photo'', JStr ''a.png'')]\<rparr>"
proof -
  let ?p = "\<lparr>rid = 0, created = None,
      attrs = [(''name'', JStr ''Ada''), (''title'', JStr ''Engineer''), (''photo'', JStr ''a.png'')]\<rparr>"
  have a: "colls store_with_profile KProfile = ?p # []"
    by (simp add: store_with_profile_def)
  have b: "upload_step env_up (req_file req_title) ''portfolio/profile'' = Inr JUndefined"
    by (simp add: upload_step_def req_title_def)
  have c: "fault_at env_up 0 = None" by (simp add: fault_at_def env_up_def)
  have d: "fault_at env_up 1 = None" by (simp add: fault_at_def env_up_def)
  have e: "map_of (spread (req_body req_title)) ''photo'' = None" by (simp add: req_title_def)
  note T = profile_update_merges [OF a b c d refl]
  have f: "st_findOne KProfile (store_of (post_profile env_up req_title store_with_profile)) =
     Some (?p\<lparr>attrs := assign (attrs ?p) (profile_data (req_body req_title) JUndefined)\<rparr>)"
    using T by blast
  show ?thesis
    unfolding f using a b c d e
    by (simp add: profile_data_def and_field_def req_title_def)
qed

subsection \<open>Every route preserves the invariant\<close>

lemma store_try_catch: "fst (snd (try_catch m)) = fst (snd m)"
  by (simp add: try_catch_def split: prod.splits sum.splits)

lemma store_no_catch: "fst (snd (no_catch m)) = fst (snd m)"
  by (simp add: no_catch_def split: prod.splits sum.splits)

lemma store_await_last:
  "fst (snd (await m (\<lambda>x s. (Inr (g x), s, [])))) = fst (snd m)"
  by (cases m) (auto simp: await_def split: sum.splits)

lemma store_await_throws:
  "fst (snd (await (throws r s) f)) = (case r of Inl x \<Rightarrow> s | Inr v \<Rightarrow> fst (snd (f v s)))"
  by (cases r) (simp_all add: await_throws_Inl await_throws_Inr)

lemma st_create_one_other:
  "st_create_one e k v s = Inr (d, s') \<Longrightarrow> k' \<noteq> k \<Longrightarrow> colls s' k' = colls s k'"
  by (auto simp: st_create_one_def split: sum.splits)

lemma st_create_each_other:
  "st_create_each e k vs s = Inr (ds, s') \<Longrightarrow> k' \<noteq> k \<Longrightarrow> colls s' k' = colls s k'"
proof (induction vs arbitrary: s ds)
  case Nil
  then show ?case by simp
next
  case (Cons v vs)
  then show ?case
    by (auto split: sum.splits prod.splits dest: st_create_one_other)
qed

lemma st_create_other:
  "st_create e k v s = Inr (p, s') \<Longrightarrow> k' \<noteq> k \<Longrightarrow> colls s' k' = colls s k'"
  by (cases v)
     (auto split: sum.splits prod.splits dest: st_create_one_other st_create_each_other)

lemma Model_create_other:
  "k' \<noteq> k \<Longrightarrow> colls (fst (snd (Model_create e i k v s))) k' = colls s k'"
  by (auto simp: Model_create_def split: option.splits sum.splits dest: st_create_other)

lemma Model_update_other:
  "k' \<noteq> k \<Longrightarrow> colls (fst (snd (Model_findByIdAndUpdate e i k n v s))) k' = colls s k'"
  by (auto simp: Model_findByIdAndUpdate_def st_update_def split: option.splits sum.splits)

lemma Model_delete_other:
  "k' \<noteq> k \<Longrightarrow> colls (fst (snd (Model_findByIdAndDelete e i k n s))) k' = colls s k'"
  by (auto simp: Model_findByIdAndDelete_def st_delete_def split: option.splits)

lemma Model_reads_keep:
  "fst (snd (Model_findOne e i k s)) = s"
  "fst (snd (Model_find e i k s)) = s"
  "fst (snd (Model_find_sort e i k s)) = s"
  by (simp_all add: Model_findOne_def Model_find_def Model_find_sort_def split: option.splits)

lemmas handler_defs =
  post_profile_def post_profile_try_def get_profile_def
  post_projects_def post_projects_try_def get_projects_def put_project_def put_project_try_def
  delete_project_def post_experience_def get_experience_def put_experience_def
  delete_experience_def post_certifications_def post_certifications_try_def
  get_certifications_def delete_certification_def post_contact_def get_contact_def
  post_testimonials_def put_testimonial_def delete_testimonial_def get_testimonials_def

lemmas store_simps =
  store_try_catch store_no_catch store_await_last store_await_throws
  Model_create_other Model_update_other Model_delete_other Model_reads_keep

lemma post_profile_keeps_singleton:
  assumes "length (colls s KProfile) \<le> 1"
  shows "length (colls (fst (snd (post_profile e req s))) KProfile) \<le> 1"
proof (cases "upload_step e (req_file req) ''portfolio/profile''")
  case (Inl x)
  then show ?thesis
    using assms by (simp add: post_profile_def post_profile_try_def store_try_catch store_await_throws)
next
  case (Inr u)
  show ?thesis
  proof (cases "fault_at e 0")
    case (Some x)
    then show ?thesis
      using assms Inr
      by (simp add: post_profile_def post_profile_try_def store_try_catch await_throws_Inr
            Model_findOne_def await_Inl)
  next
    case None
    note f0 = this
    show ?thesis
    proof (cases "fault_at e 1")
      case (Some x)
      then show ?thesis
        using assms Inr f0
        by (cases "st_findOne KProfile s")
           (simp_all add: post_profile_def post_profile_try_def store_try_catch await_throws_Inr
              Model_findOne_ok await_Inr await_Inl Model_create_def Model_findByIdAndUpdate_def
              Let_def)
    next
      case None
      show ?thesis
      proof (cases "colls s KProfile")
        case Nil
        then show ?thesis
          using post_profile_first [OF Nil Inr f0 None] by simp
      next
        case (Cons p ps)
        then show ?thesis
          using post_profile_existing [OF Cons Inr f0 None] assms by simp
      qed
    qed
  qed
qed

lemma other_routes_keep_profiles:
  "r \<noteq> PostProfile \<Longrightarrow> colls (fst (snd (handle e r req s))) KProfile = colls s KProfile"
  by (cases r)
     (auto simp: handler_defs store_simps split: sum.splits)

lemma handle_keeps_singleton:
  "length (colls s KProfile) \<le> 1 \<Longrightarrow> length (colls (fst (snd (handle e r req s))) KProfile) \<le> 1"
  using post_profile_keeps_singleton [of s e req] other_routes_keep_profiles [of r e req s]
  by (cases "r = PostProfile") simp_all

lemma run_keeps_singleton:
  "length (colls s KProfile) \<le> 1 \<Longrightarrow> length (colls (run rs s) KProfile) \<le> 1"
proof (induction rs arbitrary: s)
  case Nil
  then show ?case by simp
next
  case (Cons x rs)
  obtain e r q where x: "x = (e, r, q)" by (cases x)
  show ?case
    using Cons.IH [OF handle_keeps_singleton [OF Cons.prems, of e r q]] x by simp
qed

text \<open>
  C5. Starting from a store with at most one Profile, any sequence of requests, handled
  one after the other, leaves at most one Profile. A Profile write that meets no failure
  calls \<^verbatim>\<open>findOne\<close> and then updates the one existing document in place, or, when
  there is none, creates exactly one.
\<close>

theorem profile_singleton:
  "(length (colls s KProfile) \<le> 1 \<longrightarrow> length (colls (run rs s) KProfile) \<le> 1) \<and>
   (upload_step e (req_file req) ''portfolio/profile'' = Inr u \<and>
    fault_at e 0 = None \<and> fault_at e 1 = None \<longrightarrow>
      (colls s KProfile = [p] \<longrightarrow>
         calls_of (post_profile e req s) =
           [FindOne KProfile,
            FindByIdAndUpdate KProfile (rid p) (JObj (profile_data (req_body req) u))] \<and>
         colls (store_of (post_profile e req s)) KProfile =
           [p\<lparr>attrs := assign (attrs p) (profile_data (req_body req) u)\<rparr>]) \<and>
      (colls s KProfile = [] \<longrightarrow>
         calls_of (post_profile e req s) =
           [FindOne KProfile, Create KProfile (JObj (profile_data (req_body req) u))] \<and>
         colls (store_of (post_profile e req s)) KProfile =
           [\<lparr>rid = next_id s, created = None,
             attrs = persist KProfile (profile_data (req_body req) u)\<rparr>]))"
proof -
  have a: "length (colls s KProfile) \<le> 1 \<longrightarrow> length (colls (run rs s) KProfile) \<le> 1"
    using run_keeps_singleton [of s rs] by blast
  have b: "colls (store_of (post_profile e req s)) KProfile =
           [p\<lparr>attrs := assign (attrs p) (profile_data (req_body req) u)\<rparr>] \<and>
           calls_of (post_profile e req s) =
           [FindOne KProfile,
            FindByIdAndUpdate KProfile (rid p) (JObj (profile_data (req_body req) u))]"
    if "colls s KProfile = [p]" "upload_step e (req_file req) ''portfolio/profile'' = Inr u"
      "fault_at e 0 = None" "fault_at e 1 = None"
    using post_profile_existing [OF that] by simp
  have c: "colls (store_of (post_profile e req s)) KProfile =
           [\<lparr>rid = next_id s, created = None,
             attrs = persist KProfile (profile_data (req_body req) u)\<rparr>] \<and>
           calls_of (post_profile e req s) =
           [FindOne KProfile, Create KProfile (JObj (profile_data (req_body req) u))]"
    if "colls s KProfile = []" "upload_step e (req_file req) ''portfolio/profile'' = Inr u"
      "fault_at e 0 = None" "fault_at e 1 = None"
    using post_profile_first [OF that] by simp
  show ?thesis using a b c by blast
qed

theorem profile_singleton_witness:
  "length (colls empty_store KProfile) \<le> 1 \<and>
   length (colls (run [(env_up, PostProfile, req_up), (env_up, PostProfile, req_title),
                       (env_up, PostContact, req_contact)] empty_store) KProfile) \<le> 1 \<and>
   upload_step env_up (req_file req_title) ''portfolio/profile'' = Inr JUndefined \<and>
   fault_at env_up 0 = None \<and> fault_at env_up 1 = None \<and>
   colls store_with_profile KProfile =
     [\<lparr>rid = 0, created = None,
       attrs = [(''name'', JStr ''Ada''), (''title'', JStr ''Engineer''), (''photo'', JStr ''a.png'')]\<rparr>] \<and>
   colls (store_of (post_profile env_up req_title store_with_profile)) KProfile =
     [\<lparr>rid = 0, created = None,
       attrs = [(''name'', JStr ''Ada''), (''title'', JStr ''Architect''), (''photo'', JStr ''a.png'')]\<rparr>] \<and>
   colls empty_store KProfile = [] \<and>
   colls (store_of (post_profile env_up req_title empty_store)) KProfile =
     [\<lparr>rid = 0, created = None, attrs = [(''title'', JStr ''Architect'')]\<rparr>]"
proof -
  let ?p = "\<lparr>rid = 0, created = None,
      attrs = [(''name'', JStr ''Ada''), (''title'', JStr ''Engineer''), (''photo'', JStr ''a.png'')]\<rparr>"
  let ?rs = "[(env_up, PostProfile, req_up), (env_up, PostProfile, req_title),
                       (env_up, PostContact, req_contact)]"
  note T1 = profile_singleton [of empty_store ?rs env_up req_title JUndefined ?p]
  note T2 = profile_singleton [of store_with_profile ?rs env_up req_title JUndefined ?p]
  have a: "colls store_with_profile KProfile = [?p]"
    by (simp add: store_with_profile_def)
  have b: "upload_step env_up (req_file req_title) ''portfolio/profile'' = Inr JUndefined"
    by (simp add: upload_step_def req_title_def)
  have c: "fault_at env_up 0 = None" by (simp add: fault_at_def env_up_def)
  have d: "fault_at env_up 1 = None" by (simp add: fault_at_def env_up_def)
  have e: "colls empty_store KProfile = []" by (simp add: empty_store_def)
  have l: "length (colls empty_store KProfile) \<le> 1" by (simp add: e)
  have f: "length (colls (run ?rs empty_store) KProfile) \<le> 1"
    using T1 l by blast
  have g: "colls (store_of (post_profile env_up req_title store_with_profile)) KProfile =
           [?p\<lparr>attrs := assign (attrs ?p) (profile_data (req_body req_title) JUndefined)\<rparr>]"
    using T2 a b c d by blast
  have h: "colls (store_of (post_profile env_up req_title empty_store)) KProfile =
           [\<lparr>rid = next_id empty_store, created = None,
             attrs = persist KProfile (profile_data (req_body req_title) JUndefined)\<rparr>]"
    using T1 e b c d by blast
  show ?thesis
    unfolding g h using a b c d e l f
    by (simp add: profile_data_def and_field_def req_title_def empty_store_def env_up_def
          persist_def with_defaults_def array_paths_def schema_def)
qed

section \<open>Listings, newest first\<close>

lemma Model_find_sort_ok:
  "fault_at e i = None \<Longrightarrow>
   Model_find_sort e i k s = (Inr (st_find_newest_first k s), s, [FindNewestFirst k])"
  by (simp add: Model_find_sort_def)

lemma get_contact_ok:
  "fault_at e 0 = None \<Longrightarrow>
   get_contact e req s =
     (Responded (ok (Docs (st_find_newest_first KContact s))), s, [FindNewestFirst KContact])"
  by (simp add: get_contact_def Model_find_sort_ok await_Inr no_catch_def)

lemma get_testimonials_ok:
  "fault_at e 0 = None \<Longrightarrow>
   get_testimonials e req s =
     (Responded (ok (Docs (st_find_newest_first KTestimonial s))), s, [FindNewestFirst KTestimonial])"
  by (simp add: get_testimonials_def Model_find_sort_ok await_Inr no_catch_def)

lemma mset_place: "mset (place d xs) = add_mset d (mset xs)"
  by (induction xs) auto

lemma set_place: "set (place d xs) = insert d (set xs)"
  by (induction xs) auto

lemma sorted_place:
  "sorted_wrt (\<lambda>a b. created b \<le> created a) xs \<Longrightarrow>
   sorted_wrt (\<lambda>a b. created b \<le> created a) (place d xs)"
proof (induction xs)
  case Nil
  then show ?case by simp
next
  case (Cons x xs)
  show ?case
  proof (cases "created x < created d")
    case True
    with Cons.prems show ?thesis by (auto intro: order_trans less_imp_le)
  next
    case False
    then have "created d \<le> created x" by simp
    with False Cons show ?thesis by (auto simp: set_place)
  qed
qed

lemma foldl_place_sorted:
  "sorted_wrt (\<lambda>a b. created b \<le> created a) acc \<Longrightarrow>
   sorted_wrt (\<lambda>a b. created b \<le> created a) (foldl (\<lambda>acc d. place d acc) acc ds)"
  by (induction ds arbitrary: acc) (simp_all add: sorted_place)

lemma foldl_place_mset: "mset (foldl (\<lambda>acc d. place d acc) acc ds) = mset acc + mset ds"
  by (induction ds arbitrary: acc) (simp_all add: mset_place)

lemma newest_first_sorted:
  "sorted_wrt (\<lambda>a b. created b \<le> created a) (st_find_newest_first k s)"
  by (simp add: st_find_newest_first_def newest_first_def foldl_place_sorted)

lemma newest_first_mset: "mset (st_find_newest_first k s) = mset (colls s k)"
  by (simp add: st_find_newest_first_def newest_first_def foldl_place_mset)

lemma stamped_body:
  "stamped_by_store q \<Longrightarrow> \<exists>b. req_body q = JObj b \<and> getf b ''createdAt'' = JUndefined"
  by (cases "req_body q") (simp_all add: stamped_by_store_def)

lemma created_at_stamped:
  "getf b ''createdAt'' = JUndefined \<Longrightarrow> k \<noteq> KProfile \<Longrightarrow> created_at e k b = Inr (Some (now e))"
  by (simp add: created_at_def)

lemma created_at_number:
  "getf b ''createdAt'' = JNum n \<Longrightarrow> - 8640000000000000 \<le> n \<Longrightarrow> n \<le> 8640000000000000 \<Longrightarrow>
   k \<noteq> KProfile \<Longrightarrow> created_at e k b = Inr (Some (trunc n))"
  by (simp add: created_at_def)

lemma post_testimonials_ok:
  "fault_at e 0 = None \<Longrightarrow> req_body req = JObj b \<Longrightarrow> created_at e KTestimonial b = Inr c \<Longrightarrow>
   post_testimonials e req s =
     (Responded (ok (Doc (Some \<lparr>rid = next_id s, created = c, attrs = persist KTestimonial b\<rparr>))),
      s\<lparr>colls := (colls s)(KTestimonial := colls s KTestimonial @
            [\<lparr>rid = next_id s, created = c, attrs = persist KTestimonial b\<rparr>]),
        next_id := Suc (next_id s)\<rparr>,
      [Create KTestimonial (req_body req)])"
  by (simp add: post_testimonials_def Model_create_ok await_Inr no_catch_def)

lemma post_contact_stamped:
  assumes "contact_complete q" and "fault_at e 0 = None" and "stamped_by_store q"
  shows "fst (snd (post_contact e q s)) =
      s\<lparr>colls := (colls s)(KContact := colls s KContact @
            [\<lparr>rid = next_id s, created = Some (now e),
              attrs = persist KContact (spread (req_body q))\<rparr>]),
        next_id := Suc (next_id s)\<rparr>"
proof -
  obtain b where b: "req_body q = JObj b" "getf b ''createdAt'' = JUndefined"
    using stamped_body [OF assms(3)] by blast
  have c: "created_at e KContact b = Inr (Some (now e))"
    using b(2) by (simp add: created_at_stamped)
  show ?thesis
    using post_contact_ok [OF assms(1,2) b(1) c, of s] b(1) by simp
qed

lemma post_testimonials_stamped:
  assumes "fault_at e 0 = None" and "stamped_by_store q"
  shows "fst (snd (post_testimonials e q s)) =
      s\<lparr>colls := (colls s)(KTestimonial := colls s KTestimonial @
            [\<lparr>rid = next_id s, created = Some (now e),
              attrs = persist KTestimonial (spread (req_body q))\<rparr>]),
        next_id := Suc (next_id s)\<rparr>"
proof -
  obtain b where b: "req_body q = JObj b" "getf b ''createdAt'' = JUndefined"
    using stamped_body [OF assms(2)] by blast
  have c: "created_at e KTestimonial b = Inr (Some (now e))"
    using b(2) by (simp add: created_at_stamped)
  show ?thesis
    using post_testimonials_ok [OF assms(1) b(1) c, of s] b(1) by simp
qed

lemma three_newest_first:
  assumes "colls s k = [a, b, c]" and "created a < created b" and "created b < created c"
  shows "st_find_newest_first k s = [c, b, a]"
  using assms by (simp add: st_find_newest_first_def newest_first_def)

lemma three_contacts:
  assumes "colls s KContact = []"
    and "fault_at eA 0 = None" and "fault_at eB 0 = None" and "fault_at eC 0 = None"
    and "contact_complete qA" and "contact_complete qB" and "contact_complete qC"
    and "stamped_by_store qA" and "stamped_by_store qB" and "stamped_by_store qC"
  shows "colls (run [(eA, PostContact, qA), (eB, PostContact, qB), (eC, PostContact, qC)] s) KContact =
    [\<lparr>rid = next_id s, created = Some (now eA), attrs = persist KContact (spread (req_body qA))\<rparr>,
     \<lparr>rid = Suc (next_id s), created = Some (now eB),
      attrs = persist KContact (spread (req_body qB))\<rparr>,
     \<lparr>rid = Suc (Suc (next_id s)), created = Some (now eC),
      attrs = persist KContact (spread (req_body qC))\<rparr>]"
  using assms by (simp add: post_contact_stamped)

lemma three_testimonials:
  assumes "colls s KTestimonial = []"
    and "fault_at eA 0 = None" and "fault_at eB 0 = None" and "fault_at eC 0 = None"
    and "stamped_by_store qA" and "stamped_by_store qB" and "stamped_by_store qC"
  shows "colls (run [(eA, PostTestimonials, qA), (eB, PostTestimonials, qB),
                     (eC, PostTestimonials, qC)] s) KTestimonial =
    [\<lparr>rid = next_id s, created = Some (now eA),
      attrs = persist KTestimonial (spread (req_body qA))\<rparr>,
     \<lparr>rid = Suc (next_id s), created = Some (now eB),
      attrs = persist KTestimonial (spread (req_body qB))\<rparr>,
     \<lparr>rid = Suc (Suc (next_id s)), created = Some (now eC),
      attrs = persist KTestimonial (spread (req_body qC))\<rparr>]"
  using assms by (simp add: post_testimonials_stamped)

text \<open>
  C8 (as amended). In every state of the store, \<^verbatim>\<open>GET /api/contact\<close> and
  \<^verbatim>\<open>GET /api/testimonials\<close> (when the read does not throw) answer with the entries of
  the collection, all of them, ordered by their \<^verbatim>\<open>createdAt\<close> descending. The
  \<^verbatim>\<open>createdAt\<close> of a new entry is the time of its insertion when the request body
  carries none of its own, and the caller's value (for a number: that many
  milliseconds) when it carries one. After inserting A, then B, then C into an empty
  collection at strictly increasing times, each with a plain object for a body that
  carries no \<^verbatim>\<open>createdAt\<close>, the listing is \<open>[C, B, A]\<close>.
\<close>

theorem listings_newest_first:
  "(fault_at e 0 = None \<longrightarrow>
      get_contact e req s =
        (Responded (ok (Docs (st_find_newest_first KContact s))), s, [FindNewestFirst KContact]) \<and>
      get_testimonials e req s =
        (Responded (ok (Docs (st_find_newest_first KTestimonial s))), s,
         [FindNewestFirst KTestimonial])) \<and>
   sorted_wrt (\<lambda>a b. created b \<le> created a) (st_find_newest_first k s) \<and>
   mset (st_find_newest_first k s) = mset (colls s k) \<and>
   (k \<noteq> KProfile \<and> getf b ''createdAt'' = JUndefined \<longrightarrow>
      created_at e k b = Inr (Some (now e))) \<and>
   (k \<noteq> KProfile \<and> getf b ''createdAt'' = JNum n \<and>
    - 8640000000000000 \<le> n \<and> n \<le> 8640000000000000 \<longrightarrow>
      created_at e k b = Inr (Some (trunc n))) \<and>
   (fault_at eA 0 = None \<and> fault_at eB 0 = None \<and> fault_at eC 0 = None \<and>
    now eA < now eB \<and> now eB < now eC \<and>
    stamped_by_store qA \<and> stamped_by_store qB \<and> stamped_by_store qC \<longrightarrow>
      (colls s KContact = [] \<and> contact_complete qA \<and> contact_complete qB \<and> contact_complete qC \<longrightarrow>
         st_find_newest_first KContact
           (run [(eA, PostContact, qA), (eB, PostContact, qB), (eC, PostContact, qC)] s) =
         [\<lparr>rid = Suc (Suc (next_id s)), created = Some (now eC),
           attrs = persist KContact (spread (req_body qC))\<rparr>,
          \<lparr>rid = Suc (next_id s), created = Some (now eB),
           attrs = persist KContact (spread (req_body qB))\<rparr>,
          \<lparr>rid = next_id s, created = Some (now eA),
           attrs = persist KContact (spread (req_body qA))\<rparr>]) \<and>
      (colls s KTestimonial = [] \<longrightarrow>
         st_find_newest_first KTestimonial
           (run [(eA, PostTestimonials, qA), (eB, PostTestimonials, qB),
                 (eC, PostTestimonials, qC)] s) =
         [\<lparr>rid = Suc (Suc (next_id s)), created = Some (now eC),
           attrs = persist KTestimonial (spread (req_body qC))\<rparr>,
          \<lparr>rid = Suc (next_id s), created = Some (now eB),
           attrs = persist KTestimonial (spread (req_body qB))\<rparr>,
          \<lparr>rid = next_id s, created = Some (now eA),
           attrs = persist KTestimonial (spread (req_body qA))\<rparr>]))"
proof -
  have c: "st_find_newest_first KContact
           (run [(eA, PostContact, qA), (eB, PostContact, qB), (eC, PostContact, qC)] s) =
         [\<lparr>rid = Suc (Suc (next_id s)), created = Some (now eC),
           attrs = persist KContact (spread (req_body qC))\<rparr>,
          \<lparr>rid = Suc (next_id s), created = Some (now eB),
           attrs = persist KContact (spread (req_body qB))\<rparr>,
          \<lparr>rid = next_id s, created = Some (now eA),
           attrs = persist KContact (spread (req_body qA))\<rparr>]"
    if "colls s KContact = []" "fault_at eA 0 = None" "fault_at eB 0 = None" "fault_at eC 0 = None"
      "contact_complete qA" "contact_complete qB" "contact_complete qC"
      "stamped_by_store qA" "stamped_by_store qB" "stamped_by_store qC"
      "now eA < now eB" "now eB < now eC"
    using three_contacts [OF that(1-10)] that(11,12)
    by (intro three_newest_first) simp_all
  have t: "st_find_newest_first KTestimonial
           (run [(eA, PostTestimonials, qA), (eB, PostTestimonials, qB),
                 (eC, PostTestimonials, qC)] s) =
         [\<lparr>rid = Suc (Suc (next_id s)), created = Some (now eC),
           attrs = persist KTestimonial (spread (req_body qC))\<rparr>,
          \<lparr>rid = Suc (next_id s), created = Some (now eB),
           attrs = persist KTestimonial (spread (req_body qB))\<rparr>,
          \<lparr>rid = next_id s, created = Some (now eA),
           attrs = persist KTestimonial (spread (req_body qA))\<rparr>]"
    if "colls s KTestimonial = []" "fault_at eA 0 = None" "fault_at eB 0 = None" "fault_at eC 0 = None"
      "stamped_by_store qA" "stamped_by_store qB" "stamped_by_store qC"
      "now eA < now eB" "now eB < now eC"
    using three_testimonials [OF that(1-7)] that(8,9)
    by (intro three_newest_first) simp_all
  show ?thesis
    using c t get_contact_ok [of e req s] get_testimonials_ok [of e req s]
      newest_first_sorted [of k s] newest_first_mset [of k s]
      created_at_stamped [of b k e] created_at_number [of b n k e]
    by blast
qed

theorem listings_newest_first_witness:
  "fault_at (env_at 30) 0 = None \<and>
   fault_at (env_at 10) 0 = None \<and> fault_at (env_at 20) 0 = None \<and>
   now (env_at 10) < now (env_at 20) \<and> now (env_at 20) < now (env_at 30) \<and>
   stamped_by_store (req_msg ''A'') \<and> stamped_by_store (req_msg ''B'') \<and>
   stamped_by_store (req_msg ''C'') \<and>
   colls empty_store KContact = [] \<and>
   contact_complete (req_msg ''A'') \<and> contact_complete (req_msg ''B'') \<and>
   contact_complete (req_msg ''C'') \<and>
   fst (get_contact (env_at 30)  req_empty
     (run [(env_at 10, PostContact, req_msg ''A''), (env_at 20, PostContact, req_msg ''B''),
           (env_at 30, PostContact, req_msg ''C'')] empty_store)) =
   Responded (ok (Docs
     [\<lparr>rid = 2, created = Some 30, attrs = spread (req_body (req_msg ''C''))\<rparr>,
      \<lparr>rid = 1, created = Some 20, attrs = spread (req_body (req_msg ''B''))\<rparr>,
      \<lparr>rid = 0, created = Some 10, attrs = spread (req_body (req_msg ''A''))\<rparr>])) \<and>
   getf (spread (req_body (req_backdated ''C''))) ''createdAt'' = JNum 5 \<and>
   created_at (env_at 30) KContact (spread (req_body (req_backdated ''C''))) = Inr (Some 5)"
proof -
  let ?rs = "[(env_at 10, PostContact, req_msg ''A''), (env_at 20, PostContact, req_msg ''B''),
           (env_at 30, PostContact, req_msg ''C'')]"
  note T1 = listings_newest_first [where e = "env_at 30" and req = req_empty
      and s = "run ?rs empty_store" and k = KContact
      and b = "spread (req_body (req_backdated ''C''))" and n = 5
      and eA = "env_at 10" and eB = "env_at 20" and eC = "env_at 30"
      and qA = "req_msg ''A''" and qB = "req_msg ''B''" and qC = "req_msg ''C''"]
  note T2 = listings_newest_first [where e = "env_at 30" and req = req_empty
      and s = empty_store and k = KContact
      and b = "spread (req_body (req_backdated ''C''))" and n = 5
      and eA = "env_at 10" and eB = "env_at 20" and eC = "env_at 30"
      and qA = "req_msg ''A''" and qB = "req_msg ''B''" and qC = "req_msg ''C''"]
  have f: "fault_at (env_at t) 0 = None" for t
    by (simp add: fault_at_def env_at_def)
  have n: "now (env_at 10) < now (env_at 20) \<and> now (env_at 20) < now (env_at 30)"
    by (simp add: env_at_def)
  have st: "stamped_by_store (req_msg m)" for m
    by (simp add: stamped_by_store_def req_msg_def getf_def)
  have cc: "contact_complete (req_msg [x])" for x
    by (simp add: contact_complete_def req_msg_def getf_def)
  have e: "colls empty_store KContact = []" by (simp add: empty_store_def)
  have bd: "getf (spread (req_body (req_backdated ''C''))) ''createdAt'' = JNum 5"
    by (simp add: req_backdated_def getf_def)
  have g: "get_contact (env_at 30) req_empty (run ?rs empty_store) =
        (Responded (ok (Docs (st_find_newest_first KContact (run ?rs empty_store)))),
         run ?rs empty_store, [FindNewestFirst KContact])"
    using T1 f [of 30] by (elim conjE) simp
  have l: "st_find_newest_first KContact (run ?rs empty_store) =
         [\<lparr>rid = Suc (Suc (next_id empty_store)), created = Some (now (env_at 30)),
           attrs = persist KContact (spread (req_body (req_msg ''C'')))\<rparr>,
          \<lparr>rid = Suc (next_id empty_store), created = Some (now (env_at 20)),
           attrs = persist KContact (spread (req_body (req_msg ''B'')))\<rparr>,
          \<lparr>rid = next_id empty_store, created = Some (now (env_at 10)),
           attrs = persist KContact (spread (req_body (req_msg ''A'')))\<rparr>]"
    using T2 f [of 10] f [of 20] f [of 30] n st [of "''A''"] st [of "''B''"] st [of "''C''"]
      cc [of "CHR ''A''"] cc [of "CHR ''B''"] cc [of "CHR ''C''"] e
    by (elim conjE) simp
  have k: "created_at (env_at 30) KContact (spread (req_body (req_backdated ''C''))) =
      Inr (Some (trunc 5))"
    using T2 bd by (elim conjE) simp
  have pm: "persist KContact (spread (req_body (req_msg m))) = spread (req_body (req_msg m))" for m
    by (simp add: persist_def with_defaults_def array_paths_def schema_def req_msg_def)
  show ?thesis
    unfolding g l k pm using f n st cc e bd
    by (simp add: empty_store_def env_at_def numeral_2_eq_2 trunc_def)
qed

text \<open>
  C8 as stated fails when an inserted entry carries its own \<^verbatim>\<open>createdAt\<close>: A and B
  are inserted, then C with \<^verbatim>\<open>createdAt: 5\<close>, and the listing is \<open>[B, A, C]\<close>, for
  Contact and for Testimonial.
\<close>

theorem backdated_entry_listed_last:
  "fst (get_contact (env_at 40) req_empty
     (run [(env_at 10, PostContact, req_msg ''A''), (env_at 20, PostContact, req_msg ''B''),
           (env_at 30, PostContact, req_backdated ''C'')] empty_store)) =
   Responded (ok (Docs
     [\<lparr>rid = 1, created = Some 20, attrs = spread (req_body (req_msg ''B''))\<rparr>,
      \<lparr>rid = 0, created = Some 10, attrs = spread (req_body (req_msg ''A''))\<rparr>,
      \<lparr>rid = 2, created = Some 5, attrs = spread (req_body (req_backdated ''C''))\<rparr>])) \<and>
   fst (get_testimonials (env_at 40) req_empty
     (run [(env_at 10, PostTestimonials, req_msg ''A''),
           (env_at 20, PostTestimonials, req_msg ''B''),
           (env_at 30, PostTestimonials, req_backdated ''C'')] empty_store)) =
   Responded (ok (Docs
     [\<lparr>rid = 1, created = Some 20, attrs = spread (req_body (req_msg ''B''))\<rparr>,
      \<lparr>rid = 0, created = Some 10, attrs = spread (req_body (req_msg ''A''))\<rparr>,
      \<lparr>rid = 2, created = Some 5, attrs = spread (req_body (req_backdated ''C''))\<rparr>]))"
  by (simp add: run_defs req_msg_def req_backdated_def env_at_def req_empty_def trunc_def
        numeral_2_eq_2)

section \<open>Failures of the collaborators\<close>

lemma try_catch_thrown:
  "x \<noteq> JUndefined \<Longrightarrow> x \<noteq> JNull \<Longrightarrow>
   try_catch (Inl x, s, c) =
     (Responded \<lparr>status = 500, sent = error_body (jsprop x ''message'')\<rparr>, s, c)"
  by (simp add: try_catch_def get_prop_def)

lemma Model_findOne_fault:
  "fault_at e i = Some x \<Longrightarrow> Model_findOne e i k s = (Inl x, s, [FindOne k])"
  by (simp add: Model_findOne_def)

lemma Model_update_fault:
  "fault_at e i = Some x \<Longrightarrow>
   Model_findByIdAndUpdate e i k n f s = (Inl x, s, [FindByIdAndUpdate k n f])"
  by (simp add: Model_findByIdAndUpdate_def)

lemma post_profile_caught:
  assumes "x \<noteq> JUndefined" and "x \<noteq> JNull"
    and "upload_step e (req_file req) ''portfolio/profile'' = Inl x \<or>
         upload_step e (req_file req) ''portfolio/profile'' = Inr u \<and>
         (fault_at e 0 = Some x \<or> fault_at e 0 = None \<and> fault_at e 1 = Some x)"
  shows "fst (post_profile e req s) =
           Responded \<lparr>status = 500, sent = error_body (jsprop x ''message'')\<rparr>"
  using assms(3)
proof (elim disjE conjE)
  assume "upload_step e (req_file req) ''portfolio/profile'' = Inl x"
  then show ?thesis
    by (simp add: post_profile_def post_profile_try_def await_throws_Inl
          try_catch_thrown [OF assms(1,2)])
next
  assume "upload_step e (req_file req) ''portfolio/profile'' = Inr u" "fault_at e 0 = Some x"
  then show ?thesis
    by (simp add: post_profile_def post_profile_try_def await_throws_Inr Model_findOne_fault
          await_Inl try_catch_thrown [OF assms(1,2)])
next
  assume "upload_step e (req_file req) ''portfolio/profile'' = Inr u" "fault_at e 0 = None"
    "fault_at e 1 = Some x"
  then show ?thesis
    by (cases "st_findOne KProfile s")
       (simp_all add: post_profile_def post_profile_try_def await_throws_Inr Model_findOne_ok
          await_Inr await_Inl Model_update_fault Model_create_fault Let_def
          try_catch_thrown [OF assms(1,2)])
qed

lemma post_projects_caught:
  assumes "x \<noteq> JUndefined" and "x \<noteq> JNull"
    and "upload_step e (req_file req) ''portfolio/projects'' = Inl x \<or>
         upload_step e (req_file req) ''portfolio/projects'' = Inr u \<and>
         req_tech (req_body req) = Inr t \<and> fault_at e 0 = Some x"
  shows "fst (post_projects e req s) =
           Responded \<lparr>status = 500, sent = error_body (jsprop x ''message'')\<rparr> \<and>
         fst (put_project e i req s) =
           Responded \<lparr>status = 500, sent = error_body (jsprop x ''message'')\<rparr>"
  using assms(3)
  by (auto simp: post_projects_def post_projects_try_def put_project_def put_project_try_def
        await_throws_Inl await_throws_Inr Model_create_fault Model_update_fault await_Inl
        try_catch_thrown [OF assms(1,2)])

lemma post_certifications_caught:
  assumes "x \<noteq> JUndefined" and "x \<noteq> JNull"
    and "upload_step e (req_file req) ''portfolio/certifications'' = Inl x \<or>
         upload_step e (req_file req) ''portfolio/certifications'' = Inr u \<and> fault_at e 0 = Some x"
  shows "fst (post_certifications e req s) =
           Responded \<lparr>status = 500, sent = error_body (jsprop x ''message'')\<rparr>"
  using assms(3)
  by (auto simp: post_certifications_def post_certifications_try_def
        await_throws_Inl await_throws_Inr Model_create_fault await_Inl
        try_catch_thrown [OF assms(1,2)])

text \<open>
  C9 (as amended). On the four routes whose handler is wrapped in \<^verbatim>\<open>try\<close>/\<^verbatim>\<open>catch\<close>
  (\<^verbatim>\<open>POST /api/profile\<close>, \<^verbatim>\<open>POST /api/projects\<close>, \<^verbatim>\<open>PUT /api/projects/:id\<close>,
  \<^verbatim>\<open>POST /api/certifications\<close>), when the upload or a model call throws a value \<open>x\<close>
  (other than \<^verbatim>\<open>undefined\<close> and \<^verbatim>\<open>null\<close>), the handler answers with status 500 and
  the body \<^verbatim>\<open>{ error: x.message }\<close>; so it does for anything else thrown inside the
  \<^verbatim>\<open>try\<close>.
\<close>

theorem upstream_failure_caught:
  assumes "x \<noteq> JUndefined" and "x \<noteq> JNull"
  shows
   "(upload_step e (req_file req) ''portfolio/profile'' = Inl x \<or>
     upload_step e (req_file req) ''portfolio/profile'' = Inr u \<and>
       (fault_at e 0 = Some x \<or> fault_at e 0 = None \<and> fault_at e 1 = Some x) \<longrightarrow>
       fst (post_profile e req s) =
         Responded \<lparr>status = 500, sent = error_body (jsprop x ''message'')\<rparr>) \<and>
    (upload_step e (req_file req) ''portfolio/projects'' = Inl x \<or>
     upload_step e (req_file req) ''portfolio/projects'' = Inr u \<and>
       req_tech (req_body req) = Inr t \<and> fault_at e 0 = Some x \<longrightarrow>
       fst (post_projects e req s) =
         Responded \<lparr>status = 500, sent = error_body (jsprop x ''message'')\<rparr> \<and>
       fst (put_project e i req s) =
         Responded \<lparr>status = 500, sent = error_body (jsprop x ''message'')\<rparr>) \<and>
    (upload_step e (req_file req) ''portfolio/certifications'' = Inl x \<or>
     upload_step e (req_file req) ''portfolio/certifications'' = Inr u \<and> fault_at e 0 = Some x \<longrightarrow>
       fst (post_certifications e req s) =
         Responded \<lparr>status = 500, sent = error_body (jsprop x ''message'')\<rparr>) \<and>
    (req_file req = Some buf \<and> uploadToCloudinary e buf folder = Inl x \<longrightarrow>
       upload_step e (req_file req) folder = Inl x) \<and>
    (post_profile_try e req s = (Inl x, s', cs) \<longrightarrow>
       post_profile e req s =
         (Responded \<lparr>status = 500, sent = error_body (jsprop x ''message'')\<rparr>, s', cs)) \<and>
    (post_projects_try e req s = (Inl x, s', cs) \<longrightarrow>
       post_projects e req s =
         (Responded \<lparr>status = 500, sent = error_body (jsprop x ''message'')\<rparr>, s', cs)) \<and>
    (put_project_try e i req s = (Inl x, s', cs) \<longrightarrow>
       put_project e i req s =
         (Responded \<lparr>status = 500, sent = error_body (jsprop x ''message'')\<rparr>, s', cs)) \<and>
    (post_certifications_try e req s = (Inl x, s', cs) \<longrightarrow>
       post_certifications e req s =
         (Responded \<lparr>status = 500, sent = error_body (jsprop x ''message'')\<rparr>, s', cs))"
  using try_catch_thrown [OF assms, of s' cs]
    post_profile_def [of e req s] post_projects_def [of e req s] put_project_def [of e i req s]
    post_certifications_def [of e req s]
    post_profile_caught [OF assms, where e = e and req = req and u = u and s = s]
    post_projects_caught [OF assms, where e = e and req = req and u = u and t = t and s = s and i = i]
    post_certifications_caught [OF assms, where e = e and req = req and u = u and s = s]
    upload_step_rejects [where req = req and buf = buf and e = e and folder = folder and x = x]
  by metis

theorem upstream_failure_caught_witness:
  "store_error \<noteq> JUndefined \<and> store_error \<noteq> JNull \<and>
   upload_step env_store_down (req_file req_title) ''portfolio/profile'' = Inr JUndefined \<and>
   fault_at env_store_down 0 = Some store_error \<and>
   post_profile env_store_down req_title store_with_profile =
     (Responded \<lparr>status = 500, sent = Json (JObj [(''error'', JStr ''connection lost'')])\<rparr>,
      store_with_profile, [FindOne KProfile]) \<and>
   upload_step env_store_down (req_file req_cert) ''portfolio/certifications'' = Inr JUndefined \<and>
   fst (post_certifications env_store_down req_cert empty_store) =
     Responded \<lparr>status = 500, sent = Json (JObj [(''error'', JStr ''connection lost'')])\<rparr>"
proof -
  have a: "store_error \<noteq> JUndefined" and b: "store_error \<noteq> JNull"
    by (simp_all add: store_error_def)
  note T1 = upstream_failure_caught [OF a b, where e = env_store_down and req = req_title
      and u = JUndefined and t = JUndefined and s = store_with_profile and i = 0 and buf = "[]"
      and folder = "''portfolio/profile''"]
  note T2 = upstream_failure_caught [OF a b, where e = env_store_down and req = req_cert
      and u = JUndefined and t = JUndefined and s = empty_store and i = 0 and buf = "[]"
      and folder = "''portfolio/profile''"]
  have c: "upload_step env_store_down (req_file req_title) folder = Inr JUndefined" for folder
    by (simp add: upload_step_def req_title_def)
  have c': "upload_step env_store_down (req_file req_cert) folder = Inr JUndefined" for folder
    by (simp add: upload_step_def req_cert_def)
  have d: "fault_at env_store_down 0 = Some store_error"
    by (simp add: fault_at_def env_store_down_def)
  have p: "fst (post_profile env_store_down req_title store_with_profile) =
         Responded \<lparr>status = 500, sent = error_body (jsprop store_error ''message'')\<rparr>"
    using T1 c d by blast
  have q: "fst (post_certifications env_store_down req_cert empty_store) =
         Responded \<lparr>status = 500, sent = error_body (jsprop store_error ''message'')\<rparr>"
    using T2 c' d by blast
  have r: "snd (post_profile env_store_down req_title store_with_profile) =
         (store_with_profile, [FindOne KProfile])"
    using c [of "''portfolio/profile''"] d
    by (simp add: post_profile_def post_profile_try_def await_throws_Inr Model_findOne_fault
          await_Inl try_catch_def split: sum.splits)
  have m: "error_body (jsprop store_error ''message'') = Json (JObj [(''error'', JStr ''connection lost'')])"
    by (simp add: error_body_def store_error_def getf_def)
  show ?thesis
    using a b c c' d p q r m by (simp add: prod_eq_iff)
qed

text \<open>The other fifteen handlers have no \<^verbatim>\<open>try\<close>.\<close>

lemma uncaught_routes_reject:
  assumes "upload_folder r = None" and "fault_at e 0 = Some x"
    and "r = PostContact \<Longrightarrow> contact_complete req"
  shows "fst (handle e r req s) = Rejected x \<and> fst (snd (handle e r req s)) = s"
  using assms complete_has_body [of req]
  by (cases r)
     (auto simp: upload_folder_def contact_complete_def falsy_def handler_defs
        Model_create_def Model_find_def Model_find_sort_def Model_findOne_def
        Model_findByIdAndUpdate_def Model_findByIdAndDelete_def await_def no_catch_def
        destructure_def)

text \<open>
  C9 as stated fails on \<^verbatim>\<open>POST /api/experience\<close> and on
  \<^verbatim>\<open>PUT /api/testimonials/:id\<close>: the model call throws, the handler has no
  \<^verbatim>\<open>catch\<close>, its promise is rejected and it sends no response of its own.
\<close>

theorem store_failure_unanswered:
  "fault_at env_store_down 0 = Some store_error \<and>
   jsprop store_error ''message'' = JStr ''connection lost'' \<and>
   post_experience env_store_down req_title empty_store =
     (Rejected store_error, empty_store,
      [Create KExperience (JObj [(''title'', JStr ''Architect'')])]) \<and>
   put_testimonial env_store_down 0 req_title empty_store =
     (Rejected store_error, empty_store,
      [FindByIdAndUpdate KTestimonial 0 (JObj [(''title'', JStr ''Architect'')])]) \<and>
   fst (handle env_store_down PostExperience req_title empty_store) \<noteq>
     Responded \<lparr>status = 500, sent = error_body (JStr ''connection lost'')\<rparr>"
  by (simp add: run_defs env_store_down_def store_error_def req_title_def)

end
